theory Spec2Isabelle
  imports Complex_Main "HOL-Library.AList" "HOL-Library.Sublist"
begin

section \<open>The policy engine of june/policy.py\<close>

text \<open>
  The development embeds \<^verbatim>\<open>src/june/policy.py\<close>: the policy classes, the two
  collections and the two daily appliers of the registry \<^verbatim>\<open>Policies\<close>.
  Python exceptions are values of the type \<open>error\<close>; a function that mutates its
  arguments returns the mutated objects, also when it raises, because a Python exception
  does not undo the assignments made before it.
\<close>

subsection \<open>Exceptions, dates, dictionaries, random numbers\<close>

text \<open>
  \<open>PolicyError\<close> is the class of line 23. \<open>TypeError\<close>, \<open>ValueError\<close>, \<open>KeyError\<close> and
  \<open>AttributeError\<close> are the built-in exceptions the code raises itself or by a failed
  subscript, attribute read or operator. \<open>ConfigurationError\<close> is the name the
  specification uses; no statement of the source raises it, it is here so that theorems
  can say so. \<open>OtherError\<close> stands for any exception of a collaborator.
\<close>

datatype error =
    TypeError | ValueError | KeyError | AttributeError
  | PolicyError | ConfigurationError | OtherError string

text \<open>
  A \<^verbatim>\<open>datetime.datetime\<close> is the number of microseconds since its epoch;
  a \<^verbatim>\<open>datetime.date\<close> is a day number.
\<close>

type_synonym datetime = int

definition us_per_day :: int where
  "us_per_day = 86400000000"

definition day :: "int \<Rightarrow> datetime" where
  "day n = n * us_per_day"

text \<open>
  A Python \<^verbatim>\<open>dict\<close> with string keys: an association list in insertion order.
  \<^verbatim>\<open>d[k] = v\<close> is \<open>AList.update k v d\<close> (in place for a key that is there, appended
  otherwise), \<^verbatim>\<open>d[k]\<close> is \<open>map_of d k\<close> with \<open>None\<close> for the \<^verbatim>\<open>KeyError\<close>.
\<close>

type_synonym 'v dict = "(string \<times> 'v) list"

text \<open>
  \<^verbatim>\<open>np.random.rand()\<close>: the generator is the sequence of its future draws and
  the number of draws made.
\<close>

record rng =
  draws :: "nat \<Rightarrow> rat"
  pos :: nat

definition rand :: "rng \<Rightarrow> rat \<times> rng" where
  "rand g = (draws g (pos g), g\<lparr>pos := Suc (pos g)\<rparr>)"

subsection \<open>Collaborators\<close>

text \<open>
  Modelled from the spec: the classes \<^verbatim>\<open>Person\<close>, \<^verbatim>\<open>SymptomTag\<close>,
  the household behind \<^verbatim>\<open>person.residence.group\<close> and the leisure
  distributors are imported by policy.py and are not among the sources. They are
  modelled as section 6 of the specification lists them, with exactly the attributes
  policy.py reads. \<open>symptoms\<close> is the tag read by \<^verbatim>\<open>person.symptoms.tag\<close>, \<open>None\<close>
  when that read fails; \<open>primary_activity\<close> is \<^verbatim>\<open>person.primary_activity.group.spec\<close>,
  \<open>None\<close> when the person has no primary activity; \<open>residents\<close> holds the
  \<^verbatim>\<open>lockdown_status\<close> of every resident; \<open>quarantine\<close> is the household's own
  method, which may draw random numbers and may raise.
\<close>

datatype symptom_tag =
  Recovered | Healthy | Exposed | Asymptomatic | Mild | Severe | Hospitalised | Intensive_care | Dead

record health_info =
  tag :: symptom_tag
  time_of_symptoms_onset :: "rat option"

record household =
  residents :: "string option list"
  quarantine :: "rat \<Rightarrow> int \<Rightarrow> rat \<Rightarrow> rng \<Rightarrow> (error + bool) \<times> rng"

record person =
  age :: int
  hospital :: "nat option"
  health_information :: "health_info option"
  symptoms :: "symptom_tag option"
  primary_activity :: "string option"
  residence :: "household option"
  lockdown_status :: "string option"

type_synonym probs = "rat list"

record distributor =
  male_probabilities :: probs
  female_probabilities :: probs

subsection \<open>Policies\<close>

text \<open>
  The class hierarchy below \<^verbatim>\<open>Policy\<close>: the fields of the base class are the
  record, the concrete class and its own fields are the \<open>body\<close>.
  An interaction coefficient is \<open>Some b\<close>, or \<open>None\<close> for Python's \<^verbatim>\<open>None\<close>
  (the value \<^verbatim>\<open>original_betas\<close> holds for every key after construction).
\<close>

datatype policy_body =
    PermanentPolicy
  | Quarantine int int rat
  | Shielding int "rat option"
  | CloseSchools "int list option" "bool option"
  | CloseUniversities
  | CloseCompanies bool "rat option"
  | CloseLeisureVenue "string list"
  | SocialDistancing "rat dict" "rat option dict"
  | ChangeLeisureProbability "probs dict dict" "probs dict dict"

record policy =
  start_time :: datetime
  end_time :: datetime
  body :: policy_body

text \<open>The argument of \<^verbatim>\<open>read_date\<close>: a \<^verbatim>\<open>str\<close>, a date, a datetime, or anything else.\<close>

datatype pyvalue = PyStr string | PyDate int | PyDateTime datetime | PyOther

text \<open>
  \<^verbatim>\<open>Policy.read_date\<close> (lines 47-67). \<^verbatim>\<open>datetime.strptime(_, "%Y-%m-%d")\<close> belongs
  to the standard library and is the parameter \<open>strptime\<close>. A datetime is an instance of
  \<^verbatim>\<open>datetime.date\<close>; \<^verbatim>\<open>combine\<close> keeps its day and sets the time to midnight.
\<close>

definition read_date :: "(string \<Rightarrow> error + datetime) \<Rightarrow> pyvalue \<Rightarrow> error + datetime" where
  "read_date strptime date =
     (case date of
        PyStr s \<Rightarrow> strptime s
      | PyDate d \<Rightarrow> Inr (day d)
      | PyDateTime t \<Rightarrow> Inr (day (t div us_per_day))
      | PyOther \<Rightarrow> Inl TypeError)"

text \<open>\<^verbatim>\<open>Policy.__init__\<close> (lines 28-45), for a concrete class with the fields \<open>b\<close>.\<close>

definition Policy_init ::
  "(string \<Rightarrow> error + datetime) \<Rightarrow> pyvalue \<Rightarrow> pyvalue \<Rightarrow> policy_body \<Rightarrow> error + policy" where
  "Policy_init strptime start_arg end_arg b =
     (case read_date strptime start_arg of
        Inl e \<Rightarrow> Inl e
      | Inr s \<Rightarrow>
          (case read_date strptime end_arg of
             Inl e \<Rightarrow> Inl e
           | Inr t \<Rightarrow> Inr \<lparr>start_time = s, end_time = t, body = b\<rparr>))"

text \<open>
  \<^verbatim>\<open>SocialDistancing.__init__\<close> (lines 88-98). The constructor of the base class
  runs first and reads the dates; the fields of the class are set after it, and the
  \<open>body\<close> handed to \<open>Policy_init\<close> is replaced by them. The default
  \<^verbatim>\<open>beta_factors=None\<close> has no \<^verbatim>\<open>keys\<close>.
\<close>

fun unset_keys :: "string list \<Rightarrow> rat option dict \<Rightarrow> rat option dict" where
  "unset_keys [] original = original"
| "unset_keys (key # keys) original = unset_keys keys (AList.update key None original)"

definition SocialDistancing_init ::
  "(string \<Rightarrow> error + datetime) \<Rightarrow> pyvalue \<Rightarrow> pyvalue \<Rightarrow> rat dict option \<Rightarrow> error + policy" where
  "SocialDistancing_init strptime start_arg end_arg beta_factors =
     (case Policy_init strptime start_arg end_arg PermanentPolicy of
        Inl e \<Rightarrow> Inl e
      | Inr p \<Rightarrow>
          (case beta_factors of
             None \<Rightarrow> Inl AttributeError
           | Some factors \<Rightarrow>
               Inr (p\<lparr>body := SocialDistancing factors (unset_keys (map fst factors) [])\<rparr>)))"

text \<open>
  \<^verbatim>\<open>Policy.is_active\<close> (line 84) and its override in
  \<^verbatim>\<open>ChangeLeisureProbability\<close> (line 391).
\<close>

definition is_active :: "policy \<Rightarrow> datetime \<Rightarrow> bool" where
  "is_active p date =
     (case body p of
        ChangeLeisureProbability _ _ \<Rightarrow> start_time p \<le> date \<and> date \<le> end_time p
      | _ \<Rightarrow> start_time p \<le> date \<and> date < end_time p)"

text \<open>The \<^verbatim>\<open>isinstance\<close> tests of \<^verbatim>\<open>get_active_policies_for_type\<close>.\<close>

fun is_StayHome :: "policy_body \<Rightarrow> bool" where
  "is_StayHome PermanentPolicy = True"
| "is_StayHome (Quarantine _ _ _) = True"
| "is_StayHome (Shielding _ _) = True"
| "is_StayHome _ = False"

fun is_SkipActivity :: "policy_body \<Rightarrow> bool" where
  "is_SkipActivity (CloseSchools _ _) = True"
| "is_SkipActivity CloseUniversities = True"
| "is_SkipActivity (CloseCompanies _ _) = True"
| "is_SkipActivity _ = False"

fun is_SocialDistancing :: "policy_body \<Rightarrow> bool" where
  "is_SocialDistancing (SocialDistancing _ _) = True"
| "is_SocialDistancing _ = False"

fun is_ChangeLeisureProbability :: "policy_body \<Rightarrow> bool" where
  "is_ChangeLeisureProbability (ChangeLeisureProbability _ _) = True"
| "is_ChangeLeisureProbability _ = False"

text \<open>
  \<^verbatim>\<open>get_active_policies_for_type\<close> (lines 478-483). The list it returns holds
  references into \<^verbatim>\<open>self.policies\<close>; \<open>active_indices\<close> is the same list as
  positions in the registry, for the appliers, which assign to the policies they find.
\<close>

definition get_active_policies_for_type ::
  "(policy_body \<Rightarrow> bool) \<Rightarrow> datetime \<Rightarrow> policy list \<Rightarrow> policy list" where
  "get_active_policies_for_type policy_type date policies =
     filter (\<lambda>p. policy_type (body p) \<and> is_active p date) policies"

definition active_indices ::
  "(policy_body \<Rightarrow> bool) \<Rightarrow> datetime \<Rightarrow> policy list \<Rightarrow> nat list" where
  "active_indices policy_type date policies =
     filter (\<lambda>i. policy_type (body (policies ! i)) \<and> is_active (policies ! i) date)
       [0 ..< length policies]"

subsection \<open>Stay-home policies\<close>

text \<open>
  The body of the \<^verbatim>\<open>try\<close> of \<^verbatim>\<open>Quarantine.must_stay_at_home\<close> (lines 228-236):
  the value assigned to \<^verbatim>\<open>self_quarantine\<close>, or the exception of a failed read.
\<close>

definition self_quarantine_check :: "int \<Rightarrow> person \<Rightarrow> rat \<Rightarrow> error + bool" where
  "self_quarantine_check n_days person days_from_start =
     (case symptoms person of
        None \<Rightarrow> Inl AttributeError
      | Some t \<Rightarrow>
          if t = Mild \<or> t = Severe then
            (case health_information person of
               None \<Rightarrow> Inl AttributeError
             | Some h \<Rightarrow>
                 (case time_of_symptoms_onset h of
                    None \<Rightarrow> Inl TypeError
                  | Some onset \<Rightarrow>
                      let release_day = onset + of_int n_days
                      in Inr (release_day > days_from_start \<and> days_from_start > onset)))
          else Inr False)"

text \<open>
  \<^verbatim>\<open>must_stay_at_home\<close> of \<^verbatim>\<open>PermanentPolicy\<close> (lines 189-192),
  \<^verbatim>\<open>Quarantine\<close> (lines 225-244) and \<^verbatim>\<open>Shielding\<close> (lines 259-263). The other
  classes have no such method.
\<close>

fun must_stay_at_home ::
  "policy_body \<Rightarrow> person \<Rightarrow> rat \<Rightarrow> rng \<Rightarrow> (error + bool) \<times> rng" where
  "must_stay_at_home PermanentPolicy person days_from_start g =
     (Inr (case health_information person of None \<Rightarrow> False | Some h \<Rightarrow> tag h = Severe), g)"
| "must_stay_at_home (Quarantine n_days n_days_household household_complacency)
       person days_from_start g =
     (let self_quarantine =
            (case self_quarantine_check n_days person days_from_start of
               Inl _ \<Rightarrow> False
             | Inr b \<Rightarrow> b)
      in case residence person of
           None \<Rightarrow> (Inl AttributeError, g)
         | Some h \<Rightarrow>
             (case quarantine h days_from_start n_days_household household_complacency g of
                (Inl e, g') \<Rightarrow> (Inl e, g')
              | (Inr housemates_quarantine, g') \<Rightarrow>
                  (Inr (self_quarantine \<or> housemates_quarantine), g')))"
| "must_stay_at_home (Shielding min_age complacency) person days_from_start g =
     (if age person \<ge> min_age then
        (case complacency of
           None \<Rightarrow> (Inr True, g)
         | Some c \<Rightarrow> (case rand g of (u, g') \<Rightarrow> (Inr (u < c), g')))
      else (Inr False, g))"
| "must_stay_at_home _ person days_from_start g = (Inl AttributeError, g)"

text \<open>\<^verbatim>\<open>StayHomeCollection.__call__\<close> (lines 429-448).\<close>

fun stay_home_loop :: "policy list \<Rightarrow> person \<Rightarrow> rat \<Rightarrow> rng \<Rightarrow> (error + bool) \<times> rng" where
  "stay_home_loop [] person days_from_start g = (Inr False, g)"
| "stay_home_loop (p # policies) person days_from_start g =
     (case must_stay_at_home (body p) person days_from_start g of
        (Inl e, g') \<Rightarrow> (Inl e, g')
      | (Inr True, g') \<Rightarrow> (Inr True, g')
      | (Inr False, g') \<Rightarrow> stay_home_loop policies person days_from_start g')"

definition StayHomeCollection_call ::
  "policy list \<Rightarrow> person \<Rightarrow> rat \<Rightarrow> rng \<Rightarrow> (error + bool) \<times> rng" where
  "StayHomeCollection_call policies person days_from_start g =
     (if hospital person = None then stay_home_loop policies person days_from_start g
      else (Inr False, g))"

subsection \<open>Skip-activity policies\<close>

text \<open>\<^verbatim>\<open>SkipActivity.remove_activities\<close> (lines 126-128).\<close>

definition remove_activities :: "string list \<Rightarrow> string list \<Rightarrow> string list" where
  "remove_activities activities activities_to_remove =
     filter (\<lambda>activity. activity \<notin> set activities_to_remove) activities"

text \<open>
  \<^verbatim>\<open>CloseSchools._check_kid_goes_to_school\<close> (lines 282-289); the loop returns as
  soon as it has counted a second key worker.
\<close>

fun count_key_workers :: "string option list \<Rightarrow> nat \<Rightarrow> bool" where
  "count_key_workers [] keyworkers_parents = False"
| "count_key_workers (status # rest) keyworkers_parents =
     (if status = Some ''key_worker'' then
        (if keyworkers_parents + 1 > 1 then True
         else count_key_workers rest (keyworkers_parents + 1))
      else count_key_workers rest keyworkers_parents)"

definition check_kid_goes_to_school :: "person \<Rightarrow> error + bool" where
  "check_kid_goes_to_school person =
     (if age person < 14 then
        (case residence person of
           None \<Rightarrow> Inl AttributeError
         | Some h \<Rightarrow> Inr (count_key_workers (residents h) 0))
      else Inr False)"

text \<open>
  \<^verbatim>\<open>skip_activity\<close> of \<^verbatim>\<open>CloseSchools\<close> (lines 291-302; \<open>years_to_close\<close> is the
  field after construction, \<open>None\<close> when it was not given, and \<^verbatim>\<open>x in None\<close> is
  a \<^verbatim>\<open>TypeError\<close>), \<^verbatim>\<open>CloseUniversities\<close> (lines 311-319) and
  \<^verbatim>\<open>CloseCompanies\<close> (lines 334-351).
\<close>

fun skip_activity ::
  "policy_body \<Rightarrow> person \<Rightarrow> string list \<Rightarrow> rng \<Rightarrow> (error + string list) \<times> rng" where
  "skip_activity (CloseSchools years_to_close full_closure) person activities g =
     (if primary_activity person = Some ''school'' then
        (case (if full_closure = Some True then Inr True
               else (case years_to_close of
                       None \<Rightarrow> Inl TypeError
                     | Some years \<Rightarrow> Inr (age person \<in> set years))) of
           Inl e \<Rightarrow> (Inl e, g)
         | Inr False \<Rightarrow> (Inr activities, g)
         | Inr True \<Rightarrow>
             (case check_kid_goes_to_school person of
                Inl e \<Rightarrow> (Inl e, g)
              | Inr True \<Rightarrow> (Inr activities, g)
              | Inr False \<Rightarrow> (Inr (remove_activities activities [''primary_activity'']), g)))
      else (Inr activities, g))"
| "skip_activity CloseUniversities person activities g =
     (if primary_activity person = Some ''university''
      then (Inr (remove_activities activities [''primary_activity'']), g)
      else (Inr activities, g))"
| "skip_activity (CloseCompanies full_closure random_work_probability) person activities g =
     (if primary_activity person = Some ''company'' then
        (if full_closure \<or> lockdown_status person = Some ''furlough''
         then (Inr (remove_activities activities [''primary_activity'', ''commute'']), g)
         else if lockdown_status person = Some ''random'' \<and> random_work_probability \<noteq> None
         then (case rand g of (u, g') \<Rightarrow>
                 (if u > the random_work_probability
                  then (Inr (remove_activities activities [''primary_activity'', ''commute'']), g')
                  else (Inr activities, g')))
         else (Inr activities, g))
      else (Inr activities, g))"
| "skip_activity _ person activities g = (Inl AttributeError, g)"

text \<open>\<^verbatim>\<open>SkipActivityCollection.__call__\<close> (lines 404-423).\<close>

fun SkipActivityCollection_call ::
  "policy list \<Rightarrow> person \<Rightarrow> string list \<Rightarrow> rng \<Rightarrow> (error + string list) \<times> rng" where
  "SkipActivityCollection_call [] person activities g = (Inr activities, g)"
| "SkipActivityCollection_call (p # policies) person activities g =
     (case skip_activity (body p) person activities g of
        (Inl e, g') \<Rightarrow> (Inl e, g')
      | (Inr activities', g') \<Rightarrow> SkipActivityCollection_call policies person activities' g')"

subsection \<open>The social-distancing applier\<close>

text \<open>
  The inner loop of the deactivation pass (lines 538-539): every item of
  \<^verbatim>\<open>policy.original_betas\<close> is written to \<^verbatim>\<open>interaction.beta\<close>.
\<close>

fun restore_betas :: "rat option dict \<Rightarrow> rat option dict \<Rightarrow> rat option dict" where
  "restore_betas [] beta = beta"
| "restore_betas ((key, value) # items) beta =
     restore_betas items (AList.update key value beta)"

text \<open>
  The inner loop of the activation pass (lines 544-546). Reading a key that
  \<^verbatim>\<open>interaction.beta\<close> does not have is a \<^verbatim>\<open>KeyError\<close>; multiplying
  \<^verbatim>\<open>None\<close> is a \<^verbatim>\<open>TypeError\<close>, raised after the snapshot was written.
\<close>

fun activate_betas ::
  "rat dict \<Rightarrow> rat option dict \<Rightarrow> rat option dict
     \<Rightarrow> error option \<times> rat option dict \<times> rat option dict" where
  "activate_betas [] original beta = (None, original, beta)"
| "activate_betas ((key, value) # items) original beta =
     (case map_of beta key of
        None \<Rightarrow> (Some KeyError, original, beta)
      | Some current \<Rightarrow>
          let original' = AList.update key current original in
          (case current of
             None \<Rightarrow> (Some TypeError, original', beta)
           | Some b \<Rightarrow>
               activate_betas items original' (AList.update key (Some (b * value)) beta)))"

text \<open>The first loop of \<^verbatim>\<open>apply_social_distancing_policy\<close> (lines 536-539).\<close>

fun deactivate_pass ::
  "datetime \<Rightarrow> policy list \<Rightarrow> nat list \<Rightarrow> rat option dict
     \<Rightarrow> error option \<times> rat option dict" where
  "deactivate_pass date policies [] beta = (None, beta)"
| "deactivate_pass date policies (i # rest) beta =
     (if end_time (policies ! i) = date then
        (case body (policies ! i) of
           SocialDistancing beta_factors original_betas \<Rightarrow>
             deactivate_pass date policies rest (restore_betas original_betas beta)
         | _ \<Rightarrow> (Some AttributeError, beta))
      else deactivate_pass date policies rest beta)"

text \<open>
  The second loop (lines 542-546). The policy at position \<open>i\<close> is replaced by the policy
  with the snapshot the inner loop has written.
\<close>

fun activate_pass ::
  "datetime \<Rightarrow> nat list \<Rightarrow> policy list \<Rightarrow> rat option dict
     \<Rightarrow> error option \<times> policy list \<times> rat option dict" where
  "activate_pass date [] policies beta = (None, policies, beta)"
| "activate_pass date (i # rest) policies beta =
     (if start_time (policies ! i) = date then
        (case body (policies ! i) of
           SocialDistancing beta_factors original_betas \<Rightarrow>
             (case activate_betas beta_factors original_betas beta of
                (err, original', beta') \<Rightarrow>
                  let policies' =
                        policies[i := (policies ! i)
                                   \<lparr>body := SocialDistancing beta_factors original'\<rparr>]
                  in (case err of
                        Some e \<Rightarrow> (Some e, policies', beta')
                      | None \<Rightarrow> activate_pass date rest policies' beta'))
         | _ \<Rightarrow> (Some AttributeError, policies, beta))
      else activate_pass date rest policies beta)"

text \<open>
  \<^verbatim>\<open>Policies.apply_social_distancing_policy\<close> (lines 518-546), on the registry
  \<^verbatim>\<open>self.policies\<close> and the table \<^verbatim>\<open>interaction.beta\<close>.
\<close>

definition apply_social_distancing_policy ::
  "datetime \<Rightarrow> policy list \<Rightarrow> rat option dict
     \<Rightarrow> error option \<times> policy list \<times> rat option dict" where
  "apply_social_distancing_policy date policies beta =
     (let social_distancing_policies = active_indices is_SocialDistancing date policies
      in case deactivate_pass date policies social_distancing_policies beta of
           (Some e, beta') \<Rightarrow> (Some e, policies, beta')
         | (None, beta') \<Rightarrow> activate_pass date social_distancing_policies policies beta')"

subsection \<open>The leisure applier\<close>

text \<open>
  The loop of the activation branch (lines 567-588), over the keys of
  \<^verbatim>\<open>policy.leisure_probabilities\<close>. It returns the snapshot and the table
  \<^verbatim>\<open>leisure.leisure_distributors\<close> as they are when it ends or raises.
\<close>

fun activate_activities ::
  "string list \<Rightarrow> probs dict dict \<Rightarrow> probs dict dict \<Rightarrow> distributor dict
     \<Rightarrow> error option \<times> probs dict dict \<times> distributor dict" where
  "activate_activities [] leisure_probabilities original distributors =
     (None, original, distributors)"
| "activate_activities (activity # rest) leisure_probabilities original distributors =
     (case map_of distributors activity of
        None \<Rightarrow> (Some PolicyError, original, distributors)
      | Some activity_distributor \<Rightarrow>
          (case map_of original activity of
             None \<Rightarrow> (Some KeyError, original, distributors)
           | Some snapshot \<Rightarrow>
               let original' =
                     AList.update activity
                       (AList.update ''women'' (female_probabilities activity_distributor)
                          (AList.update ''men'' (male_probabilities activity_distributor)
                             snapshot))
                       original
               in (case map_of leisure_probabilities activity of
                     None \<Rightarrow> (Some KeyError, original', distributors)
                   | Some new \<Rightarrow>
                       (case map_of new ''men'' of
                          None \<Rightarrow> (Some KeyError, original', distributors)
                        | Some men \<Rightarrow>
                            (case map_of new ''women'' of
                               None \<Rightarrow>
                                 (Some KeyError, original',
                                  AList.update activity
                                    (activity_distributor\<lparr>male_probabilities := men\<rparr>)
                                    distributors)
                             | Some women \<Rightarrow>
                                 activate_activities rest leisure_probabilities original'
                                   (AList.update activity
                                      (activity_distributor
                                         \<lparr>male_probabilities := men,
                                          female_probabilities := women\<rparr>)
                                      distributors))))))"

text \<open>The loop of the restoration branch (lines 591-606).\<close>

fun restore_activities ::
  "string list \<Rightarrow> probs dict dict \<Rightarrow> distributor dict
     \<Rightarrow> error option \<times> distributor dict" where
  "restore_activities [] original distributors = (None, distributors)"
| "restore_activities (activity # rest) original distributors =
     (case map_of distributors activity of
        None \<Rightarrow> (Some PolicyError, distributors)
      | Some activity_distributor \<Rightarrow>
          (case map_of original activity of
             None \<Rightarrow> (Some KeyError, distributors)
           | Some snapshot \<Rightarrow>
               (case map_of snapshot ''men'' of
                  None \<Rightarrow> (Some KeyError, distributors)
                | Some men \<Rightarrow>
                    (case map_of snapshot ''women'' of
                       None \<Rightarrow>
                         (Some KeyError,
                          AList.update activity
                            (activity_distributor\<lparr>male_probabilities := men\<rparr>)
                            distributors)
                     | Some women \<Rightarrow>
                         restore_activities rest original
                           (AList.update activity
                              (activity_distributor
                                 \<lparr>male_probabilities := men,
                                  female_probabilities := women\<rparr>)
                              distributors)))))"

text \<open>
  The loop over the active policies (lines 564-606): a policy that starts on the
  date is activated, otherwise (\<^verbatim>\<open>elif\<close>) a policy that ends on it is restored.
\<close>

fun leisure_loop ::
  "datetime \<Rightarrow> nat list \<Rightarrow> policy list \<Rightarrow> distributor dict
     \<Rightarrow> error option \<times> policy list \<times> distributor dict" where
  "leisure_loop date [] policies distributors = (None, policies, distributors)"
| "leisure_loop date (i # rest) policies distributors =
     (case body (policies ! i) of
        ChangeLeisureProbability leisure_probabilities original \<Rightarrow>
          if start_time (policies ! i) = date then
            (case activate_activities (map fst leisure_probabilities)
                    leisure_probabilities original distributors of
               (err, original', distributors') \<Rightarrow>
                 let policies' =
                       policies[i := (policies ! i)
                          \<lparr>body := ChangeLeisureProbability leisure_probabilities original'\<rparr>]
                 in (case err of
                       Some e \<Rightarrow> (Some e, policies', distributors')
                     | None \<Rightarrow> leisure_loop date rest policies' distributors'))
          else if end_time (policies ! i) = date then
            (case restore_activities (map fst leisure_probabilities) original distributors of
               (Some e, distributors') \<Rightarrow> (Some e, policies, distributors')
             | (None, distributors') \<Rightarrow> leisure_loop date rest policies distributors')
          else leisure_loop date rest policies distributors
      | _ \<Rightarrow> (Some AttributeError, policies, distributors))"

text \<open>\<^verbatim>\<open>Policies.apply_change_probabilities_leisure\<close> (lines 557-606).\<close>

definition apply_change_probabilities_leisure ::
  "datetime \<Rightarrow> policy list \<Rightarrow> distributor dict
     \<Rightarrow> error option \<times> policy list \<times> distributor dict" where
  "apply_change_probabilities_leisure date policies distributors =
     leisure_loop date (active_indices is_ChangeLeisureProbability date policies)
       policies distributors"

text \<open>
  The values a policy holds for an activity under \<^verbatim>\<open>"men"\<close> and
  \<^verbatim>\<open>"women"\<close>, as the distributor that carries them; \<open>None\<close> when one of the
  subscripts fails. It reads \<^verbatim>\<open>leisure_probabilities\<close> and
  \<^verbatim>\<open>original_leisure_probabilities\<close> alike.
\<close>

definition configured :: "probs dict dict \<Rightarrow> string \<Rightarrow> distributor option" where
  "configured table activity =
     (case map_of table activity of
        None \<Rightarrow> None
      | Some by_sex \<Rightarrow>
          (case map_of by_sex ''men'' of
             None \<Rightarrow> None
           | Some men \<Rightarrow>
               (case map_of by_sex ''women'' of
                  None \<Rightarrow> None
                | Some women \<Rightarrow>
                    Some \<lparr>male_probabilities = men, female_probabilities = women\<rparr>)))"

text \<open>
  \<^verbatim>\<open>ChangeLeisureProbability.__init__\<close> (lines 355-385). The imported
  \<^verbatim>\<open>parse_age_probabilites\<close> is not among the sources and is the parameter \<open>parse\<close>.
\<close>

fun init_leisure_probabilities ::
  "(rat dict \<Rightarrow> error + probs) \<Rightarrow> string list \<Rightarrow> rat dict dict dict
     \<Rightarrow> probs dict dict \<Rightarrow> probs dict dict \<Rightarrow> error + probs dict dict \<times> probs dict dict" where
  "init_leisure_probabilities parse [] given leisure_probabilities original =
     Inr (leisure_probabilities, original)"
| "init_leisure_probabilities parse (activity # rest) given leisure_probabilities original =
     (case map_of given activity of
        None \<Rightarrow> Inl KeyError
      | Some by_sex \<Rightarrow>
          (case map_of by_sex ''men'' of
             None \<Rightarrow> Inl KeyError
           | Some men_given \<Rightarrow>
               (case parse men_given of
                  Inl e \<Rightarrow> Inl e
                | Inr men \<Rightarrow>
                    (case map_of by_sex ''women'' of
                       None \<Rightarrow> Inl KeyError
                     | Some women_given \<Rightarrow>
                         (case parse women_given of
                            Inl e \<Rightarrow> Inl e
                          | Inr women \<Rightarrow>
                              init_leisure_probabilities parse rest given
                                (AList.update activity [(''men'', men), (''women'', women)]
                                   leisure_probabilities)
                                (AList.update activity [] original))))))"

definition ChangeLeisureProbability_init ::
  "(string \<Rightarrow> error + datetime) \<Rightarrow> (rat dict \<Rightarrow> error + probs) \<Rightarrow> pyvalue \<Rightarrow> pyvalue
     \<Rightarrow> rat dict dict dict \<Rightarrow> error + policy" where
  "ChangeLeisureProbability_init strptime parse start_arg end_arg given =
     (case Policy_init strptime start_arg end_arg PermanentPolicy of
        Inl e \<Rightarrow> Inl e
      | Inr p \<Rightarrow>
          (case init_leisure_probabilities parse (map fst given) given [] [] of
             Inl e \<Rightarrow> Inl e
           | Inr (leisure_probabilities, original) \<Rightarrow>
               Inr (p\<lparr>body := ChangeLeisureProbability leisure_probabilities original\<rparr>)))"

subsection \<open>The order of section 4.3 of the specification\<close>

text \<open>
  The specification's words for both appliers: a deactivation pass over all the active
  policies, then an activation pass. \<open>spec_apply_change_probabilities_leisure\<close> follows
  these words with the loops of the source, to be compared with
  \<open>apply_change_probabilities_leisure\<close>, which follows the source.
\<close>

fun spec_leisure_deactivation_pass ::
  "datetime \<Rightarrow> nat list \<Rightarrow> policy list \<Rightarrow> distributor dict
     \<Rightarrow> error option \<times> distributor dict" where
  "spec_leisure_deactivation_pass date [] policies distributors = (None, distributors)"
| "spec_leisure_deactivation_pass date (i # rest) policies distributors =
     (case body (policies ! i) of
        ChangeLeisureProbability leisure_probabilities original \<Rightarrow>
          if end_time (policies ! i) = date then
            (case restore_activities (map fst leisure_probabilities) original distributors of
               (Some e, distributors') \<Rightarrow> (Some e, distributors')
             | (None, distributors') \<Rightarrow>
                 spec_leisure_deactivation_pass date rest policies distributors')
          else spec_leisure_deactivation_pass date rest policies distributors
      | _ \<Rightarrow> (Some AttributeError, distributors))"

fun spec_leisure_activation_pass ::
  "datetime \<Rightarrow> nat list \<Rightarrow> policy list \<Rightarrow> distributor dict
     \<Rightarrow> error option \<times> policy list \<times> distributor dict" where
  "spec_leisure_activation_pass date [] policies distributors = (None, policies, distributors)"
| "spec_leisure_activation_pass date (i # rest) policies distributors =
     (case body (policies ! i) of
        ChangeLeisureProbability leisure_probabilities original \<Rightarrow>
          if start_time (policies ! i) = date then
            (case activate_activities (map fst leisure_probabilities)
                    leisure_probabilities original distributors of
               (err, original', distributors') \<Rightarrow>
                 let policies' =
                       policies[i := (policies ! i)
                          \<lparr>body := ChangeLeisureProbability leisure_probabilities original'\<rparr>]
                 in (case err of
                       Some e \<Rightarrow> (Some e, policies', distributors')
                     | None \<Rightarrow> spec_leisure_activation_pass date rest policies' distributors'))
          else spec_leisure_activation_pass date rest policies distributors
      | _ \<Rightarrow> (Some AttributeError, policies, distributors))"

definition spec_apply_change_probabilities_leisure ::
  "datetime \<Rightarrow> policy list \<Rightarrow> distributor dict
     \<Rightarrow> error option \<times> policy list \<times> distributor dict" where
  "spec_apply_change_probabilities_leisure date policies distributors =
     (let active_policies = active_indices is_ChangeLeisureProbability date policies
      in case spec_leisure_deactivation_pass date active_policies policies distributors of
           (Some e, distributors') \<Rightarrow> (Some e, policies, distributors')
         | (None, distributors') \<Rightarrow>
             spec_leisure_activation_pass date active_policies policies distributors')"

subsection \<open>Concrete inputs\<close>

text \<open>A generator, two households and a person with mild symptoms since day 5.\<close>

definition g0 :: rng where
  "g0 = \<lparr>draws = (\<lambda>n. 0), pos = 0\<rparr>"

definition quiet_household :: household where
  "quiet_household = \<lparr>residents = [], quarantine = (\<lambda>time n_days compliance g. (Inr False, g))\<rparr>"

definition failing_household :: household where
  "failing_household =
     \<lparr>residents = [],
      quarantine = (\<lambda>time n_days compliance g. (Inl (OtherError ''household''), g))\<rparr>"

definition patient :: person where
  "patient =
     \<lparr>age = 30, hospital = None,
      health_information = Some \<lparr>tag = Mild, time_of_symptoms_onset = Some 5\<rparr>,
      symptoms = Some Mild, primary_activity = Some ''company'',
      residence = Some quiet_household, lockdown_status = Some ''furlough''\<rparr>"

definition always :: "policy_body \<Rightarrow> policy" where
  "always b = \<lparr>start_time = day 0, end_time = day 100, body = b\<rparr>"

text \<open>A parser that knows two dates, for the constructors.\<close>

definition strptime_two :: "string \<Rightarrow> error + datetime" where
  "strptime_two s =
     (if s = ''1970-01-11'' then Inr (day 10)
      else if s = ''1970-01-21'' then Inr (day 20)
      else Inl ValueError)"

text \<open>
  The social-distancing scenario of the specification: the policy as constructed, the
  policy with its snapshot taken, and the interaction table.
\<close>

definition household_policy :: policy where
  "household_policy =
     \<lparr>start_time = day 10, end_time = day 20,
      body = SocialDistancing [(''household'', 1 / 2)] [(''household'', None)]\<rparr>"

definition household_policy_active :: policy where
  "household_policy_active =
     \<lparr>start_time = day 10, end_time = day 20,
      body = SocialDistancing [(''household'', 1 / 2)] [(''household'', Some 2)]\<rparr>"

definition household_beta :: "rat option dict" where
  "household_beta = [(''household'', Some 2)]"

text \<open>
  Leisure policies on the activity \<^verbatim>\<open>"pubs"\<close>: \<open>pubs_policy s e m original\<close> runs
  from day \<open>s\<close> to day \<open>e\<close>, sets both curves to \<open>[m]\<close> and holds the snapshot
  \<open>original\<close>.
\<close>

definition pubs_policy :: "int \<Rightarrow> int \<Rightarrow> rat \<Rightarrow> probs dict \<Rightarrow> policy" where
  "pubs_policy s e m original =
     \<lparr>start_time = day s, end_time = day e,
      body = ChangeLeisureProbability [(''pubs'', [(''men'', [m]), (''women'', [m])])]
               [(''pubs'', original)]\<rparr>"

definition pubs_table :: "rat \<Rightarrow> distributor dict" where
  "pubs_table m = [(''pubs'', \<lparr>male_probabilities = [m], female_probabilities = [m]\<rparr>)]"

text \<open>
  A leisure policy on \<^verbatim>\<open>"pubs"\<close> and \<^verbatim>\<open>"cinemas"\<close>, in this order, for a
  table that has no cinemas.
\<close>

definition pubs_cinemas_policy :: "int \<Rightarrow> int \<Rightarrow> probs dict \<Rightarrow> policy" where
  "pubs_cinemas_policy s e original =
     \<lparr>start_time = day s, end_time = day e,
      body = ChangeLeisureProbability
               [(''pubs'', [(''men'', [1 / 2]), (''women'', [1 / 2])]),
                (''cinemas'', [(''men'', [1 / 3]), (''women'', [1 / 3])])]
               [(''pubs'', original), (''cinemas'', [])]\<rparr>"

section \<open>Properties\<close>

subsection \<open>Activity windows\<close>

text \<open>
  C4: for every policy and every date, \<open>is_active\<close> is true exactly when
  \<open>start_time \<le> date < end_time\<close>, the end of the window excluded; the one exception is
  \<open>ChangeLeisureProbability\<close>, whose window is closed and includes \<open>end_time\<close>.
\<close>

theorem is_active_window:
  "is_active p date =
     (if is_ChangeLeisureProbability (body p)
      then start_time p \<le> date \<and> date \<le> end_time p
      else start_time p \<le> date \<and> date < end_time p)"
  by (cases "body p") (simp_all add: is_active_def)

theorem is_active_window_witness:
  "is_active \<lparr>start_time = day 10, end_time = day 20, body = CloseUniversities\<rparr> (day 19)
   \<and> \<not> is_active \<lparr>start_time = day 10, end_time = day 20, body = CloseUniversities\<rparr> (day 20)
   \<and> \<not> is_active \<lparr>start_time = day 10, end_time = day 20, body = CloseUniversities\<rparr> (day 9)
   \<and> is_active (pubs_policy 10 20 1 []) (day 20)
   \<and> \<not> is_active (pubs_policy 10 20 1 []) (day 20 + 1)"
  using
    is_active_window
      [of "\<lparr>start_time = day 10, end_time = day 20, body = CloseUniversities\<rparr>" "day 19"]
    is_active_window
      [of "\<lparr>start_time = day 10, end_time = day 20, body = CloseUniversities\<rparr>" "day 20"]
    is_active_window
      [of "\<lparr>start_time = day 10, end_time = day 20, body = CloseUniversities\<rparr>" "day 9"]
    is_active_window [of "pubs_policy 10 20 1 []" "day 20"]
    is_active_window [of "pubs_policy 10 20 1 []" "day 20 + 1"]
  by (simp add: pubs_policy_def day_def us_per_day_def)

subsection \<open>Construction\<close>

text \<open>
  C5, as amended: a start or end argument that is neither a \<^verbatim>\<open>str\<close> nor a date or
  datetime makes \<open>read_date\<close>, and with it the construction of the policy, fail with a
  \<open>TypeError\<close> (never with a \<open>ConfigurationError\<close>, which \<open>read_date\<close> returns only if the
  parser of the standard library does). A string is handed to the parser and its result
  is the stored datetime; a date or datetime is stored as the midnight of its day; when
  both arguments are read, the policy is built with the two datetimes.
\<close>

theorem read_date_validation:
  "read_date strptime PyOther = Inl TypeError
   \<and> Policy_init strptime PyOther end_arg b = Inl TypeError
   \<and> (read_date strptime start_arg = Inr s \<longrightarrow>
        Policy_init strptime start_arg PyOther b = Inl TypeError)
   \<and> read_date strptime (PyStr str) = strptime str
   \<and> read_date strptime (PyDate d) = Inr (day d)
   \<and> read_date strptime (PyDateTime t) = Inr (day (t div us_per_day))
   \<and> (read_date strptime start_arg = Inr s \<and> read_date strptime end_arg = Inr t' \<longrightarrow>
        Policy_init strptime start_arg end_arg b
          = Inr \<lparr>start_time = s, end_time = t', body = b\<rparr>)
   \<and> ((\<forall>x. strptime x \<noteq> Inl ConfigurationError) \<longrightarrow>
        read_date strptime v \<noteq> Inl ConfigurationError)"
  by (cases v) (simp_all add: read_date_def Policy_init_def)

theorem read_date_validation_witness:
  "Policy_init strptime_two (PyStr ''1970-01-11'') (PyDate 20) CloseUniversities
     = Inr \<lparr>start_time = day 10, end_time = day 20, body = CloseUniversities\<rparr>
   \<and> Policy_init strptime_two (PyStr ''1970-01-11'') PyOther CloseUniversities = Inl TypeError
   \<and> read_date strptime_two (PyDateTime (day 20 + 5)) = Inr (day 20)
   \<and> read_date strptime_two PyOther \<noteq> Inl ConfigurationError"
proof -
  have s: "read_date strptime_two (PyStr ''1970-01-11'') = Inr (day 10)"
    by (simp add: read_date_def strptime_two_def)
  have e: "read_date strptime_two (PyDate 20) = Inr (day 20)"
    by (simp add: read_date_def)
  have c: "\<forall>x. strptime_two x \<noteq> Inl ConfigurationError"
    by (simp add: strptime_two_def)
  have d: "(day 20 + 5) div us_per_day = 20"
    by (simp add: day_def us_per_day_def)
  from s e c d
    read_date_validation [of strptime_two "PyDate 20" CloseUniversities
      "PyStr ''1970-01-11''" "day 10" "''1970-01-11''" 20 "day 20 + 5" "day 20" PyOther]
  show ?thesis by simp
qed

text \<open>
  C5, as stated, fails: an argument of another type raises \<open>TypeError\<close>, and
  \<open>TypeError\<close> is not the \<open>ConfigurationError\<close> of the claim.
\<close>

theorem read_date_type_error_counterexample:
  "read_date strptime_two PyOther = Inl TypeError
   \<and> read_date strptime_two PyOther \<noteq> Inl ConfigurationError
   \<and> Policy_init strptime_two PyOther (PyDate 20) CloseUniversities = Inl TypeError"
  by (simp add: read_date_def Policy_init_def)

subsection \<open>Quarantine\<close>

text \<open>
  C9: a \<open>Quarantine\<close> policy with \<open>n_days = 7\<close>, a person tagged mild or severe whose
  symptoms began on day 5, and a household check that returns false: the person must stay
  at home on day 8 and need not on day 13 (the release day is 12, and the self-quarantine
  holds strictly between onset and release day).
\<close>

theorem quarantine_scenario:
  assumes "symptoms person = Some t" and "t = Mild \<or> t = Severe"
    and "health_information person = Some h" and "time_of_symptoms_onset h = Some 5"
    and "residence person = Some hh"
    and "quarantine hh 8 n_days_household complacency g = (Inr False, g8)"
    and "quarantine hh 13 n_days_household complacency g = (Inr False, g13)"
  shows "must_stay_at_home (Quarantine 7 n_days_household complacency) person 8 g
           = (Inr True, g8)
       \<and> must_stay_at_home (Quarantine 7 n_days_household complacency) person 13 g
           = (Inr False, g13)"
  using assms by (auto simp: self_quarantine_check_def)

theorem quarantine_scenario_witness:
  "must_stay_at_home (Quarantine 7 14 1) patient 8 g0 = (Inr True, g0)
   \<and> must_stay_at_home (Quarantine 7 14 1) patient 13 g0 = (Inr False, g0)"
proof -
  have "symptoms patient = Some Mild" and "Mild = Mild \<or> Mild = Severe"
    and "health_information patient = Some \<lparr>tag = Mild, time_of_symptoms_onset = Some 5\<rparr>"
    and "time_of_symptoms_onset \<lparr>tag = Mild, time_of_symptoms_onset = Some 5\<rparr> = Some 5"
    and "residence patient = Some quiet_household"
    and "quarantine quiet_household 8 14 1 g0 = (Inr False, g0)"
    and "quarantine quiet_household 13 14 1 g0 = (Inr False, g0)"
    by (simp_all add: patient_def quiet_household_def)
  then show ?thesis by (rule quarantine_scenario)
qed

text \<open>
  C10: in \<open>Quarantine.must_stay_at_home\<close> only the self-quarantine check is protected. The
  household check is made for every person, whatever the self-quarantine check gave (the
  generator is left as the household check leaves it); an exception of the household
  check, and the failed read of a missing residence, reach the caller; a failure of the
  self-quarantine check counts as false and the household's answer is returned.
\<close>

theorem quarantine_household_unprotected:
  "(residence person = None \<longrightarrow>
      must_stay_at_home (Quarantine n nh hc) person d g = (Inl AttributeError, g))
   \<and> (residence person = Some hh \<longrightarrow>
        snd (must_stay_at_home (Quarantine n nh hc) person d g)
          = snd (quarantine hh d nh hc g))
   \<and> (residence person = Some hh \<and> quarantine hh d nh hc g = (Inl e, g') \<longrightarrow>
        must_stay_at_home (Quarantine n nh hc) person d g = (Inl e, g'))
   \<and> (residence person = Some hh \<and> quarantine hh d nh hc g = (Inr b, g')
        \<and> self_quarantine_check n person d = Inl e' \<longrightarrow>
        must_stay_at_home (Quarantine n nh hc) person d g = (Inr b, g'))"
  by (auto split: prod.splits sum.splits)

theorem quarantine_household_unprotected_witness:
  "self_quarantine_check 7 (patient\<lparr>residence := Some failing_household\<rparr>) 8 = Inr True
   \<and> must_stay_at_home (Quarantine 7 14 1) (patient\<lparr>residence := Some failing_household\<rparr>) 8 g0
       = (Inl (OtherError ''household''), g0)
   \<and> self_quarantine_check 7 (patient\<lparr>symptoms := None\<rparr>) 8 = Inl AttributeError
   \<and> must_stay_at_home (Quarantine 7 14 1) (patient\<lparr>symptoms := None\<rparr>) 8 g0
       = (Inr False, g0)"
proof -
  have r: "residence (patient\<lparr>residence := Some failing_household\<rparr>) = Some failing_household
      \<and> quarantine failing_household 8 14 1 g0 = (Inl (OtherError ''household''), g0)"
    by (simp add: failing_household_def)
  have q: "residence (patient\<lparr>symptoms := None\<rparr>) = Some quiet_household
      \<and> quarantine quiet_household 8 14 1 g0 = (Inr False, g0)
      \<and> self_quarantine_check 7 (patient\<lparr>symptoms := None\<rparr>) 8 = Inl AttributeError"
    by (simp add: patient_def quiet_household_def self_quarantine_check_def)
  have c: "self_quarantine_check 7 (patient\<lparr>residence := Some failing_household\<rparr>) 8 = Inr True"
    by (simp add: patient_def self_quarantine_check_def)
  from r q c
    quarantine_household_unprotected
      [of "patient\<lparr>residence := Some failing_household\<rparr>" 7 14 1 8 g0 failing_household
          "OtherError ''household''" g0]
    quarantine_household_unprotected
      [of "patient\<lparr>symptoms := None\<rparr>" 7 14 1 8 g0 quiet_household _ g0 False AttributeError]
  show ?thesis by simp
qed

subsection \<open>The collections\<close>

lemma stay_home_loop_append:
  "stay_home_loop pre person d g = (Inr False, g1) \<Longrightarrow>
   stay_home_loop (pre @ post) person d g = stay_home_loop post person d g1"
  by (induction pre arbitrary: g) (auto split: prod.splits sum.splits bool.splits)

lemma stay_home_loop_True:
  "stay_home_loop ps person d g = (Inr True, g') \<Longrightarrow>
   \<exists>pre p post g1. ps = pre @ p # post
      \<and> stay_home_loop pre person d g = (Inr False, g1)
      \<and> must_stay_at_home (body p) person d g1 = (Inr True, g')"
proof (induction ps arbitrary: g)
  case Nil
  then show ?case by simp
next
  case (Cons a ps)
  obtain r g1 where m: "must_stay_at_home (body a) person d g = (r, g1)"
    by (cases "must_stay_at_home (body a) person d g")
  show ?case
  proof (cases r)
    case (Inl e)
    with m Cons.prems show ?thesis by simp
  next
    case (Inr b)
    show ?thesis
    proof (cases b)
      case True
      with Inr m Cons.prems have "g1 = g'" by simp
      with True Inr m have "a # ps = [] @ a # ps
        \<and> stay_home_loop [] person d g = (Inr False, g)
        \<and> must_stay_at_home (body a) person d g = (Inr True, g')" by simp
      then show ?thesis by blast
    next
      case False
      with Inr m Cons.prems have "stay_home_loop ps person d g1 = (Inr True, g')" by simp
      from Cons.IH [OF this] obtain pre p post g2 where
        h: "ps = pre @ p # post" "stay_home_loop pre person d g1 = (Inr False, g2)"
           "must_stay_at_home (body p) person d g2 = (Inr True, g')" by blast
      from h(2) False Inr m have "stay_home_loop (a # pre) person d g = (Inr False, g2)"
        by simp
      with h(1,3) have "a # ps = (a # pre) @ p # post
         \<and> stay_home_loop (a # pre) person d g = (Inr False, g2)
         \<and> must_stay_at_home (body p) person d g2 = (Inr True, g')" by simp
      then show ?thesis by blast
    qed
  qed
qed

text \<open>
  C7: for a person in a hospital the call returns false and evaluates no member: the
  result is \<open>False\<close> with the generator untouched, whatever the member policies are (also
  members that would raise or draw). For a person not in hospital the call returns true
  exactly when some member returns true after every member before it returned false; the
  members after it are not evaluated.
\<close>

theorem stay_home_collection_call:
  "(hospital person \<noteq> None \<longrightarrow>
      StayHomeCollection_call policies person d g = (Inr False, g))
   \<and> (hospital person = None \<longrightarrow>
        (StayHomeCollection_call policies person d g = (Inr True, g')
         \<longleftrightarrow> (\<exists>pre p post g1. policies = pre @ p # post
                \<and> stay_home_loop pre person d g = (Inr False, g1)
                \<and> must_stay_at_home (body p) person d g1 = (Inr True, g'))))"
proof (intro conjI impI)
  assume "hospital person \<noteq> None"
  then show "StayHomeCollection_call policies person d g = (Inr False, g)"
    by (auto simp: StayHomeCollection_call_def)
next
  assume h: "hospital person = None"
  show "StayHomeCollection_call policies person d g = (Inr True, g')
         \<longleftrightarrow> (\<exists>pre p post g1. policies = pre @ p # post
                \<and> stay_home_loop pre person d g = (Inr False, g1)
                \<and> must_stay_at_home (body p) person d g1 = (Inr True, g'))"
  proof
    assume "StayHomeCollection_call policies person d g = (Inr True, g')"
    with h have "stay_home_loop policies person d g = (Inr True, g')"
      by (simp add: StayHomeCollection_call_def)
    then show "\<exists>pre p post g1. policies = pre @ p # post
                \<and> stay_home_loop pre person d g = (Inr False, g1)
                \<and> must_stay_at_home (body p) person d g1 = (Inr True, g')"
      by (rule stay_home_loop_True)
  next
    assume "\<exists>pre p post g1. policies = pre @ p # post
                \<and> stay_home_loop pre person d g = (Inr False, g1)
                \<and> must_stay_at_home (body p) person d g1 = (Inr True, g')"
    then obtain pre p post g1 where e: "policies = pre @ p # post"
      "stay_home_loop pre person d g = (Inr False, g1)"
      "must_stay_at_home (body p) person d g1 = (Inr True, g')" by blast
    from stay_home_loop_append [OF e(2), of "p # post"] e(1,3)
    have "stay_home_loop policies person d g = (Inr True, g')" by simp
    with h show "StayHomeCollection_call policies person d g = (Inr True, g')"
      by (simp add: StayHomeCollection_call_def)
  qed
qed

theorem stay_home_collection_call_witness:
  "StayHomeCollection_call [always (Quarantine 7 14 1), always (Shielding 20 (Some 1))]
      (patient\<lparr>hospital := Some 3, residence := Some failing_household\<rparr>) 8 g0
     = (Inr False, g0)
   \<and> StayHomeCollection_call
        [always PermanentPolicy, always (Quarantine 7 14 1), always (Shielding 20 (Some 1))]
        patient 8 g0
     = (Inr True, g0)"
proof -
  have a: "hospital (patient\<lparr>hospital := Some 3, residence := Some failing_household\<rparr>) \<noteq> None"
    by simp
  have b: "hospital patient = None" by (simp add: patient_def)
  have c: "[always PermanentPolicy, always (Quarantine 7 14 1), always (Shielding 20 (Some 1))]
             = [always PermanentPolicy] @ always (Quarantine 7 14 1)
                 # [always (Shielding 20 (Some 1))]
           \<and> stay_home_loop [always PermanentPolicy] patient 8 g0 = (Inr False, g0)
           \<and> must_stay_at_home (body (always (Quarantine 7 14 1))) patient 8 g0
               = (Inr True, g0)"
    by (simp add: always_def patient_def quiet_household_def self_quarantine_check_def)
  from a
    stay_home_collection_call
      [of "patient\<lparr>hospital := Some 3, residence := Some failing_household\<rparr>"
          "[always (Quarantine 7 14 1), always (Shielding 20 (Some 1))]" 8 g0]
  have first: "StayHomeCollection_call
      [always (Quarantine 7 14 1), always (Shielding 20 (Some 1))]
      (patient\<lparr>hospital := Some 3, residence := Some failing_household\<rparr>) 8 g0
     = (Inr False, g0)"
    by blast
  from b
    stay_home_collection_call
      [of patient
          "[always PermanentPolicy, always (Quarantine 7 14 1), always (Shielding 20 (Some 1))]"
          8 g0 g0]
  have "StayHomeCollection_call
        [always PermanentPolicy, always (Quarantine 7 14 1), always (Shielding 20 (Some 1))]
        patient 8 g0 = (Inr True, g0)
      \<longleftrightarrow> (\<exists>pre p post g1.
            [always PermanentPolicy, always (Quarantine 7 14 1), always (Shielding 20 (Some 1))]
              = pre @ p # post
            \<and> stay_home_loop pre patient 8 g0 = (Inr False, g1)
            \<and> must_stay_at_home (body p) patient 8 g1 = (Inr True, g0))"
    by blast
  with c have "StayHomeCollection_call
        [always PermanentPolicy, always (Quarantine 7 14 1), always (Shielding 20 (Some 1))]
        patient 8 g0 = (Inr True, g0)"
    by blast
  with first show ?thesis by simp
qed

lemma subseq_remove_activities: "subseq (remove_activities activities r) activities"
  by (simp add: remove_activities_def)

lemma skip_activity_subseq:
  "skip_activity b person activities g = (Inr activities', g') \<Longrightarrow>
   subseq activities' activities"
  by (cases b)
     (auto simp: subseq_remove_activities
           split: if_splits sum.splits bool.splits prod.splits option.splits)

text \<open>
  C8: with no member policy the call returns the activity list it was given; with any
  members, a list it returns is a subsequence of the list it was given, so every member
  only removes entries and no entry removed by one member comes back through a later one.
\<close>

theorem skip_activity_collection_call:
  "SkipActivityCollection_call [] person activities g = (Inr activities, g)
   \<and> (SkipActivityCollection_call policies person activities g = (Inr activities', g')
       \<longrightarrow> subseq activities' activities)"
proof
  show "SkipActivityCollection_call [] person activities g = (Inr activities, g)" by simp
  show "SkipActivityCollection_call policies person activities g = (Inr activities', g')
       \<longrightarrow> subseq activities' activities"
  proof (induction policies arbitrary: activities g)
    case Nil
    then show ?case by simp
  next
    case (Cons p ps)
    show ?case
    proof
      assume c: "SkipActivityCollection_call (p # ps) person activities g
                   = (Inr activities', g')"
      then obtain a1 g1 where s: "skip_activity (body p) person activities g = (Inr a1, g1)"
        and r: "SkipActivityCollection_call ps person a1 g1 = (Inr activities', g')"
        by (auto split: prod.splits sum.splits)
      from Cons.IH r have "subseq activities' a1" by blast
      moreover from s have "subseq a1 activities" by (rule skip_activity_subseq)
      ultimately show "subseq activities' activities" by (rule subseq_order.trans)
    qed
  qed
qed

theorem skip_activity_collection_call_witness:
  "SkipActivityCollection_call
      [always (CloseSchools (Some [5, 6]) None), always (CloseCompanies False None),
       always CloseUniversities]
      patient [''primary_activity'', ''commute'', ''leisure''] g0
     = (Inr [''leisure''], g0)
   \<and> subseq [''leisure''] [''primary_activity'', ''commute'', ''leisure'']"
proof -
  have c: "SkipActivityCollection_call
      [always (CloseSchools (Some [5, 6]) None), always (CloseCompanies False None),
       always CloseUniversities]
      patient [''primary_activity'', ''commute'', ''leisure''] g0
     = (Inr [''leisure''], g0)"
    by (simp add: always_def patient_def remove_activities_def)
  with skip_activity_collection_call
      [of patient "[''primary_activity'', ''commute'', ''leisure'']" g0
          "[always (CloseSchools (Some [5, 6]) None), always (CloseCompanies False None),
            always CloseUniversities]" "[''leisure'']" g0]
  show ?thesis by blast
qed

subsection \<open>Social distancing: snapshot and restoration\<close>

lemma activate_betas_other:
  "k \<notin> fst ` set bf \<Longrightarrow> activate_betas bf ob beta = (e, ob', beta') \<Longrightarrow>
   map_of ob' k = map_of ob k \<and> map_of beta' k = map_of beta k"
proof (induction bf arbitrary: ob beta)
  case Nil
  then show ?case by simp
next
  case (Cons kv bf)
  obtain key v where kv: "kv = (key, v)" by (cases kv)
  with Cons.prems(1) have ne: "k \<noteq> key" and notin: "k \<notin> fst ` set bf" by auto
  show ?case
  proof (cases "map_of beta key")
    case None
    with Cons.prems(2) kv show ?thesis by simp
  next
    case (Some cur)
    show ?thesis
    proof (cases cur)
      case None
      with Some Cons.prems(2) kv ne show ?thesis by (auto simp: update_conv')
    next
      case (Some b)
      with \<open>map_of beta key = Some cur\<close> Cons.prems(2) kv
      have "activate_betas bf (AList.update key cur ob)
              (AList.update key (Some (b * v)) beta) = (e, ob', beta')"
        by simp
      from Cons.IH [OF notin this] ne show ?thesis by (simp add: update_conv')
    qed
  qed
qed

lemma activate_betas_snapshot:
  "distinct (map fst bf) \<Longrightarrow> activate_betas bf ob beta = (None, ob', beta') \<Longrightarrow>
   k \<in> fst ` set bf \<Longrightarrow> map_of ob' k = map_of beta k \<and> map_of beta k \<noteq> None"
proof (induction bf arbitrary: ob beta)
  case Nil
  then show ?case by simp
next
  case (Cons kv bf)
  obtain key v where kv: "kv = (key, v)" by (cases kv)
  from Cons.prems(1) kv have d: "distinct (map fst bf)" and notin: "key \<notin> fst ` set bf"
    by auto
  from Cons.prems(2) kv obtain cur b where cur: "map_of beta key = Some cur" "cur = Some b"
    and rest: "activate_betas bf (AList.update key cur ob)
                 (AList.update key (Some (b * v)) beta) = (None, ob', beta')"
    by (auto split: option.splits simp: Let_def)
  show ?case
  proof (cases "k = key")
    case True
    from activate_betas_other [OF notin rest] have "map_of ob' key = Some cur"
      by (simp add: update_conv')
    with True cur show ?thesis by simp
  next
    case False
    with Cons.prems(3) kv have "k \<in> fst ` set bf" by auto
    from Cons.IH [OF d rest this] False show ?thesis by (simp add: update_conv')
  qed
qed

lemma activate_betas_distinct:
  "distinct (map fst ob) \<Longrightarrow> activate_betas bf ob beta = (e, ob', beta') \<Longrightarrow>
   distinct (map fst ob')"
proof (induction bf arbitrary: ob beta)
  case Nil
  then show ?case by simp
next
  case (Cons kv bf)
  obtain key v where kv: "kv = (key, v)" by (cases kv)
  show ?case
  proof (cases "map_of beta key")
    case None
    with Cons.prems kv show ?thesis by simp
  next
    case (Some cur)
    from Cons.prems(1) have d: "distinct (map fst (AList.update key cur ob))"
      by (rule distinct_update)
    show ?thesis
    proof (cases cur)
      case None
      with Some Cons.prems(2) kv d show ?thesis by auto
    next
      case (Some b)
      with \<open>map_of beta key = Some cur\<close> Cons.prems(2) kv
      have "activate_betas bf (AList.update key cur ob)
              (AList.update key (Some (b * v)) beta) = (e, ob', beta')"
        by simp
      from Cons.IH [OF d this] show ?thesis .
    qed
  qed
qed

lemma restore_betas_map_of:
  "distinct (map fst ob) \<Longrightarrow>
   map_of (restore_betas ob beta) k
     = (case map_of ob k of None \<Rightarrow> map_of beta k | Some v \<Rightarrow> Some v)"
proof (induction ob arbitrary: beta)
  case Nil
  then show ?case by simp
next
  case (Cons kv ob)
  obtain key v where kv: "kv = (key, v)" by (cases kv)
  from Cons.prems kv have d: "distinct (map fst ob)" and notin: "key \<notin> fst ` set ob"
    by auto
  from notin have none: "map_of ob key = None" by (simp add: map_of_eq_None_iff)
  from Cons.IH [OF d, of "AList.update key v beta"] kv none show ?case
    by (auto simp: update_conv' split: option.splits)
qed

lemma round_trip_pass:
  assumes i: "i < length policies"
    and b: "body (policies ! i) = SocialDistancing beta_factors original_betas"
    and d1: "distinct (map fst beta_factors)" and d2: "distinct (map fst original_betas)"
    and act: "activate_pass (start_time (policies ! i)) [i] policies beta
                = (None, policies', beta')"
    and k: "key \<in> fst ` set beta_factors"
  shows "\<exists>beta''. deactivate_pass (end_time (policies ! i)) policies' [i] beta' = (None, beta'')
           \<and> map_of beta'' key = map_of beta key \<and> map_of beta key \<noteq> None"
proof -
  obtain err ob' b1 where ab: "activate_betas beta_factors original_betas beta = (err, ob', b1)"
    by (cases "activate_betas beta_factors original_betas beta")
  with act b have err: "err = None"
    and p': "policies' = policies[i := (policies ! i)\<lparr>body := SocialDistancing beta_factors ob'\<rparr>]"
    and b1: "b1 = beta'"
    by (auto simp: Let_def split: option.splits)
  from p' i have "policies' ! i = (policies ! i)\<lparr>body := SocialDistancing beta_factors ob'\<rparr>"
    by simp
  then have de: "deactivate_pass (end_time (policies ! i)) policies' [i] beta'
                   = (None, restore_betas ob' beta')"
    by simp
  from ab err b1 have ab': "activate_betas beta_factors original_betas beta = (None, ob', beta')"
    by simp
  from activate_betas_distinct [OF d2 ab'] have d3: "distinct (map fst ob')" .
  from activate_betas_snapshot [OF d1 ab' k]
  have s: "map_of ob' key = map_of beta key" "map_of beta key \<noteq> None" by simp_all
  from restore_betas_map_of [OF d3, of beta' key] s
  have "map_of (restore_betas ob' beta') key = map_of beta key" by auto
  with de s(2) show ?thesis by simp
qed

lemma household_day9:
  "apply_social_distancing_policy (day 9) [household_policy] household_beta
     = (None, [household_policy], household_beta)"
  by (simp add: apply_social_distancing_policy_def active_indices_def is_active_def
        household_policy_def household_beta_def day_def us_per_day_def)

lemma household_day10:
  "apply_social_distancing_policy (day 10) [household_policy] household_beta
     = (None, [household_policy_active], [(''household'', Some 1)])"
  by (simp add: apply_social_distancing_policy_def active_indices_def is_active_def
        household_policy_def household_policy_active_def household_beta_def
        day_def us_per_day_def)

text \<open>
  C1, as amended: in the scenario (factor 1/2 on \<^verbatim>\<open>"household"\<close>, days 10 to 20,
  coefficient 2) the applier leaves the coefficient at 2 on day 9, and on day 10 sets it
  to 1 and stores 2 in \<open>original_betas\<close>. In general, for a \<open>SocialDistancing\<close> policy
  whose two dictionaries have each key once: when the activation loop, run for the
  policy's \<open>start_time\<close>, completes, the deactivation loop run for its \<open>end_time\<close> on the
  policy completes too and gives every key of \<open>beta_factors\<close> the value the table had
  for it before the activation. The deactivation loop changes no policy, so the snapshot
  stays.
\<close>

theorem social_distancing_round_trip:
  "apply_social_distancing_policy (day 9) [household_policy] household_beta
     = (None, [household_policy], household_beta)
   \<and> apply_social_distancing_policy (day 10) [household_policy] household_beta
     = (None, [household_policy_active], [(''household'', Some 1)])
   \<and> (i < length policies
        \<and> body (policies ! i) = SocialDistancing beta_factors original_betas
        \<and> distinct (map fst beta_factors) \<and> distinct (map fst original_betas)
        \<and> activate_pass (start_time (policies ! i)) [i] policies beta
            = (None, policies', beta')
        \<and> key \<in> fst ` set beta_factors
      \<longrightarrow> (\<exists>beta''. deactivate_pass (end_time (policies ! i)) policies' [i] beta'
                       = (None, beta'')
                   \<and> map_of beta'' key = map_of beta key \<and> map_of beta key \<noteq> None))"
  using household_day9 household_day10 round_trip_pass by blast

theorem social_distancing_round_trip_witness:
  "activate_pass (day 10) [0] [household_policy] household_beta
     = (None, [household_policy_active], [(''household'', Some 1)])
   \<and> deactivate_pass (day 20) [household_policy_active] [0] [(''household'', Some 1)]
     = (None, [(''household'', Some 2)])
   \<and> (\<exists>beta''. deactivate_pass (day 20) [household_policy_active] [0] [(''household'', Some 1)]
                  = (None, beta'')
              \<and> map_of beta'' ''household'' = map_of household_beta ''household'')"
proof -
  have a: "activate_pass (day 10) [0] [household_policy] household_beta
     = (None, [household_policy_active], [(''household'', Some 1)])"
    by (simp add: household_policy_def household_policy_active_def household_beta_def)
  have e: "end_time ([household_policy] ! 0) = day 20"
    and s: "start_time ([household_policy] ! 0) = day 10"
    by (simp_all add: household_policy_def)
  have h: "0 < length [household_policy]
      \<and> body ([household_policy] ! 0)
          = SocialDistancing [(''household'', 1 / 2)] [(''household'', None)]
      \<and> distinct (map fst [(''household'', 1 / 2 :: rat)])
      \<and> distinct (map fst [(''household'', None :: rat option)])
      \<and> activate_pass (start_time ([household_policy] ! 0)) [0] [household_policy] household_beta
          = (None, [household_policy_active], [(''household'', Some 1)])
      \<and> ''household'' \<in> fst ` set [(''household'', 1 / 2 :: rat)]"
    unfolding s using a by (simp add: household_policy_def)
  have d: "deactivate_pass (day 20) [household_policy_active] [0] [(''household'', Some 1)]
     = (None, [(''household'', Some 2)])"
    by (simp add: household_policy_active_def)
  from h
    social_distancing_round_trip
      [of 0 "[household_policy]" "[(''household'', 1 / 2)]" "[(''household'', None)]"
          household_beta "[household_policy_active]" "[(''household'', Some 1)]" "''household''"]
  have "\<exists>beta''. deactivate_pass (end_time ([household_policy] ! 0)) [household_policy_active]
                    [0] [(''household'', Some 1)] = (None, beta'')
              \<and> map_of beta'' ''household'' = map_of household_beta ''household''"
    by blast
  then have "\<exists>beta''. deactivate_pass (day 20) [household_policy_active]
                    [0] [(''household'', Some 1)] = (None, beta'')
              \<and> map_of beta'' ''household'' = map_of household_beta ''household''"
    unfolding e .
  with a d show ?thesis by blast
qed

text \<open>
  C1, as stated, fails on day 20: the policy is not active on its \<open>end_time\<close>, the applier
  finds no policy to deactivate, and the coefficient set on day 10 and the snapshot stay
  as they are.
\<close>

theorem social_distancing_day20_counterexample:
  "apply_social_distancing_policy (day 20) [household_policy_active] [(''household'', Some 1)]
     = (None, [household_policy_active], [(''household'', Some 1)])
   \<and> map_of (snd (snd (apply_social_distancing_policy (day 20) [household_policy_active]
                          [(''household'', Some 1)]))) ''household''
       \<noteq> Some (Some 2)
   \<and> body (hd (fst (snd (apply_social_distancing_policy (day 20) [household_policy_active]
                          [(''household'', Some 1)]))))
       = SocialDistancing [(''household'', 1 / 2)] [(''household'', Some 2)]"
  by (simp add: apply_social_distancing_policy_def active_indices_def is_active_def
        household_policy_active_def day_def us_per_day_def)

lemma sd_deactivation_unreachable_aux:
  "\<forall>i\<in>set idxs. is_SocialDistancing (body (policies ! i)) \<and> is_active (policies ! i) date \<Longrightarrow>
   deactivate_pass date policies idxs beta = (None, beta)"
proof (induction idxs arbitrary: beta)
  case Nil
  then show ?case by simp
next
  case (Cons i idxs)
  then have "is_SocialDistancing (body (policies ! i))" "is_active (policies ! i) date"
    by simp_all
  then have "end_time (policies ! i) \<noteq> date"
    by (cases "body (policies ! i)") (auto simp: is_active_def)
  with Cons show ?case by simp
qed

lemma sd_deactivation_unreachable:
  "deactivate_pass date policies (active_indices is_SocialDistancing date policies) beta
     = (None, beta)"
  by (rule sd_deactivation_unreachable_aux) (simp add: active_indices_def)

subsection \<open>Leisure probabilities: the loops over the activities\<close>

lemma activate_activities_other:
  "x \<notin> set acts \<Longrightarrow> activate_activities acts lp orig L = (e, orig', L') \<Longrightarrow>
   map_of L' x = map_of L x \<and> map_of orig' x = map_of orig x"
  by (induction acts arbitrary: orig L)
     (auto split: option.splits simp: Let_def update_conv')

lemma activate_activities_dom:
  "activate_activities acts lp orig L = (e, orig', L') \<Longrightarrow>
   (map_of L' x = None) = (map_of L x = None)"
  by (induction acts arbitrary: orig L)
     (auto split: option.splits if_splits simp: Let_def update_conv')

lemma restore_activities_other:
  "x \<notin> set acts \<Longrightarrow> restore_activities acts orig L = (e, L') \<Longrightarrow> map_of L' x = map_of L x"
  by (induction acts arbitrary: L)
     (auto split: option.splits simp: Let_def update_conv')

lemma restore_activities_dom:
  "restore_activities acts orig L = (e, L') \<Longrightarrow> (map_of L' x = None) = (map_of L x = None)"
  by (induction acts arbitrary: L)
     (auto split: option.splits if_splits simp: Let_def update_conv')

lemma activate_activities_append_absent:
  "activate_activities earlier lp orig L = (None, orig', L') \<Longrightarrow> map_of L' a = None \<Longrightarrow>
   activate_activities (earlier @ a # rest) lp orig L = (Some PolicyError, orig', L')"
  by (induction earlier arbitrary: orig L)
     (auto split: option.splits simp: Let_def)

lemma restore_activities_append_absent:
  "restore_activities earlier orig L = (None, L') \<Longrightarrow> map_of L' a = None \<Longrightarrow>
   restore_activities (earlier @ a # rest) orig L = (Some PolicyError, L')"
  by (induction earlier arbitrary: L)
     (auto split: option.splits simp: Let_def)

lemma activate_activities_values:
  "distinct acts \<Longrightarrow> activate_activities acts lp orig L = (None, orig', L') \<Longrightarrow>
   x \<in> set acts \<Longrightarrow>
   map_of L' x = configured lp x \<and> configured lp x \<noteq> None \<and> configured orig' x = map_of L x"
proof (induction acts arbitrary: orig L)
  case Nil
  then show ?case by simp
next
  case (Cons a acts)
  from Cons.prems(2) obtain d snap new men women where
    h: "map_of L a = Some d" "map_of orig a = Some snap" "map_of lp a = Some new"
       "map_of new ''men'' = Some men" "map_of new ''women'' = Some women"
    and rest: "activate_activities acts lp
       (AList.update a (AList.update ''women'' (female_probabilities d)
          (AList.update ''men'' (male_probabilities d) snap)) orig)
       (AList.update a (d\<lparr>male_probabilities := men, female_probabilities := women\<rparr>) L)
       = (None, orig', L')"
    by (auto split: option.splits simp: Let_def)
  from Cons.prems(1) have na: "a \<notin> set acts" and di: "distinct acts" by simp_all
  show ?case
  proof (cases "x = a")
    case True
    from activate_activities_other [OF na rest] True h show ?thesis
      by (simp add: update_conv' configured_def)
  next
    case False
    with Cons.prems(3) have "x \<in> set acts" by simp
    from Cons.IH [OF di rest this] False show ?thesis by (simp add: update_conv')
  qed
qed

lemma restore_activities_values:
  "distinct acts \<Longrightarrow> restore_activities acts orig L = (None, L') \<Longrightarrow> x \<in> set acts \<Longrightarrow>
   map_of L' x = configured orig x \<and> configured orig x \<noteq> None"
proof (induction acts arbitrary: L)
  case Nil
  then show ?case by simp
next
  case (Cons a acts)
  from Cons.prems(2) obtain d snap men women where
    h: "map_of L a = Some d" "map_of orig a = Some snap"
       "map_of snap ''men'' = Some men" "map_of snap ''women'' = Some women"
    and rest: "restore_activities acts orig
       (AList.update a (d\<lparr>male_probabilities := men, female_probabilities := women\<rparr>) L)
       = (None, L')"
    by (auto split: option.splits simp: Let_def)
  from Cons.prems(1) have na: "a \<notin> set acts" and di: "distinct acts" by simp_all
  show ?case
  proof (cases "x = a")
    case True
    from restore_activities_other [OF na rest] True h show ?thesis
      by (simp add: update_conv' configured_def)
  next
    case False
    with Cons.prems(3) have "x \<in> set acts" by simp
    from Cons.IH [OF di rest this] False show ?thesis by simp
  qed
qed

subsection \<open>Leisure probabilities: the loop over the policies\<close>

lemma leisure_loop_append:
  "leisure_loop date pre policies L = (None, policies1, L1) \<Longrightarrow>
   leisure_loop date (pre @ post) policies L = leisure_loop date post policies1 L1"
  by (induction pre arbitrary: policies L)
     (auto split: policy_body.splits prod.splits option.splits if_splits simp: Let_def)

lemma leisure_loop_dom:
  "leisure_loop date idxs policies L = (e, policies', L') \<Longrightarrow>
   (map_of L' x = None) = (map_of L x = None)"
proof (induction idxs arbitrary: policies L)
  case Nil
  then show ?case by simp
next
  case (Cons i idxs)
  show ?case
  proof (cases "body (policies ! i)")
    case (ChangeLeisureProbability lp orig)
    show ?thesis
    proof (cases "start_time (policies ! i) = date")
      case True
      obtain err orig' L1 where a: "activate_activities (map fst lp) lp orig L = (err, orig', L1)"
        by (cases "activate_activities (map fst lp) lp orig L")
      from activate_activities_dom [OF a] have d: "(map_of L1 x = None) = (map_of L x = None)" .
      show ?thesis
      proof (cases err)
        case None
        with a True ChangeLeisureProbability Cons.prems
        have "leisure_loop date idxs
                (policies[i := (policies ! i)\<lparr>body := ChangeLeisureProbability lp orig'\<rparr>]) L1
              = (e, policies', L')"
          by (simp add: Let_def)
        from Cons.IH [OF this] d show ?thesis by simp
      next
        case (Some e1)
        with a True ChangeLeisureProbability Cons.prems have "L' = L1" by (simp add: Let_def)
        with d show ?thesis by simp
      qed
    next
      case False
      show ?thesis
      proof (cases "end_time (policies ! i) = date")
        case True
        obtain err L1 where r: "restore_activities (map fst lp) orig L = (err, L1)"
          by (cases "restore_activities (map fst lp) orig L")
        from restore_activities_dom [OF r] have d: "(map_of L1 x = None) = (map_of L x = None)" .
        show ?thesis
        proof (cases err)
          case None
          with r True False ChangeLeisureProbability Cons.prems
          have "leisure_loop date idxs policies L1 = (e, policies', L')" by simp
          from Cons.IH [OF this] d show ?thesis by simp
        next
          case (Some e1)
          with r True False ChangeLeisureProbability Cons.prems have "L' = L1" by simp
          with d show ?thesis by simp
        qed
      next
        case neither: False
        with False ChangeLeisureProbability Cons.prems
        have "leisure_loop date idxs policies L = (e, policies', L')" by simp
        from Cons.IH [OF this] show ?thesis .
      qed
    qed
  qed (use Cons.prems in auto)
qed

text \<open>
  C6: the applier has reached the policy at position \<open>i\<close> of its list of active policies
  (the policies before it were processed without an exception), the policy names the
  activities \<open>earlier\<close>, then \<open>a\<close>, and \<open>a\<close> is no key of the distributor table. If the policy
  starts on the date and the activation of \<open>earlier\<close> goes through, the applier raises
  \<open>PolicyError\<close>; if the policy does not start but ends on the date and the restoration
  of \<open>earlier\<close> goes through, the applier raises \<open>PolicyError\<close> as well. In both cases
  the table is the one the loop over \<open>earlier\<close> has produced: each of these activities
  holds the values the policy configures (or the values of its snapshot), nothing is
  rolled back.
\<close>

theorem leisure_policy_error:
  assumes idx: "active_indices is_ChangeLeisureProbability date policies = pre @ i # post"
    and pre: "leisure_loop date pre policies distributors = (None, policies1, distributors1)"
    and body: "body (policies1 ! i) = ChangeLeisureProbability lp original"
    and keys: "map fst lp = earlier @ a # rest"
    and absent: "map_of distributors a = None"
  shows "(start_time (policies1 ! i) = date
            \<and> activate_activities earlier lp original distributors1
                = (None, original', distributors2)
          \<longrightarrow> apply_change_probabilities_leisure date policies distributors
                = (Some PolicyError,
                   policies1[i := (policies1 ! i)
                      \<lparr>body := ChangeLeisureProbability lp original'\<rparr>],
                   distributors2)
              \<and> (distinct earlier \<longrightarrow>
                   (\<forall>x\<in>set earlier. map_of distributors2 x = configured lp x
                                          \<and> configured lp x \<noteq> None)))
       \<and> (start_time (policies1 ! i) \<noteq> date \<and> end_time (policies1 ! i) = date
            \<and> restore_activities earlier original distributors1 = (None, distributors2)
          \<longrightarrow> apply_change_probabilities_leisure date policies distributors
                = (Some PolicyError, policies1, distributors2)
              \<and> (distinct earlier \<longrightarrow>
                   (\<forall>x\<in>set earlier. map_of distributors2 x = configured original x
                                          \<and> configured original x \<noteq> None)))"
proof -
  from leisure_loop_dom [OF pre] absent have a1: "map_of distributors1 a = None" by simp
  have split: "apply_change_probabilities_leisure date policies distributors
      = leisure_loop date (i # post) policies1 distributors1"
    unfolding apply_change_probabilities_leisure_def idx
    by (rule leisure_loop_append [OF pre])
  show ?thesis
  proof (intro conjI impI)
    assume h: "start_time (policies1 ! i) = date
       \<and> activate_activities earlier lp original distributors1
           = (None, original', distributors2)"
    then have act: "activate_activities earlier lp original distributors1
                      = (None, original', distributors2)"
      by simp
    from activate_activities_dom [OF act] a1 have "map_of distributors2 a = None" by simp
    from activate_activities_append_absent [OF act this, of rest] keys
    have "activate_activities (map fst lp) lp original distributors1
            = (Some PolicyError, original', distributors2)" by simp
    with split body h show "apply_change_probabilities_leisure date policies distributors
                = (Some PolicyError,
                   policies1[i := (policies1 ! i)
                      \<lparr>body := ChangeLeisureProbability lp original'\<rparr>],
                   distributors2)"
      by (simp add: Let_def)
    assume "distinct earlier"
    with act show "\<forall>x\<in>set earlier. map_of distributors2 x = configured lp x
                                      \<and> configured lp x \<noteq> None"
      using activate_activities_values by blast
  next
    assume h: "start_time (policies1 ! i) \<noteq> date \<and> end_time (policies1 ! i) = date
            \<and> restore_activities earlier original distributors1 = (None, distributors2)"
    then have res: "restore_activities earlier original distributors1 = (None, distributors2)"
      by simp
    from restore_activities_dom [OF res] a1 have "map_of distributors2 a = None" by simp
    from restore_activities_append_absent [OF res this, of rest] keys
    have "restore_activities (map fst lp) original distributors1
            = (Some PolicyError, distributors2)"
      by simp
    with split body h show "apply_change_probabilities_leisure date policies distributors
                = (Some PolicyError, policies1, distributors2)"
      by simp
    assume "distinct earlier"
    with res show "\<forall>x\<in>set earlier. map_of distributors2 x = configured original x
                                      \<and> configured original x \<noteq> None"
      using restore_activities_values by blast
  qed
qed

theorem leisure_policy_error_witness:
  "apply_change_probabilities_leisure (day 10) [pubs_cinemas_policy 10 20 []] (pubs_table 1)
     = (Some PolicyError,
        [pubs_cinemas_policy 10 20 [(''men'', [1]), (''women'', [1])]], pubs_table (1 / 2))
   \<and> apply_change_probabilities_leisure (day 20)
        [pubs_cinemas_policy 10 20 [(''men'', [1]), (''women'', [1])]] (pubs_table (1 / 2))
     = (Some PolicyError,
        [pubs_cinemas_policy 10 20 [(''men'', [1]), (''women'', [1])]], pubs_table 1)"
proof -
  let ?lp = "[(''pubs'', [(''men'', [1 / 2 :: rat]), (''women'', [1 / 2])]),
              (''cinemas'', [(''men'', [1 / 3]), (''women'', [1 / 3])])]"
  let ?snap = "[(''men'', [1 :: rat]), (''women'', [1])]"
  have i1: "active_indices is_ChangeLeisureProbability (day 10) [pubs_cinemas_policy 10 20 []]
              = [] @ 0 # []"
    by (simp add: active_indices_def is_active_def pubs_cinemas_policy_def day_def us_per_day_def)
  have p1: "leisure_loop (day 10) [] [pubs_cinemas_policy 10 20 []] (pubs_table 1)
              = (None, [pubs_cinemas_policy 10 20 []], pubs_table 1)"
    by simp
  have b1: "body ([pubs_cinemas_policy 10 20 []] ! 0)
              = ChangeLeisureProbability ?lp [(''pubs'', []), (''cinemas'', [])]"
    by (simp add: pubs_cinemas_policy_def)
  have k: "map fst ?lp = [''pubs''] @ ''cinemas'' # []" by simp
  have ab1: "map_of (pubs_table 1) ''cinemas'' = None" by (simp add: pubs_table_def)
  have h1: "start_time ([pubs_cinemas_policy 10 20 []] ! 0) = day 10
      \<and> activate_activities [''pubs''] ?lp [(''pubs'', []), (''cinemas'', [])] (pubs_table 1)
          = (None, [(''pubs'', ?snap), (''cinemas'', [])], pubs_table (1 / 2))"
    by (simp add: pubs_cinemas_policy_def pubs_table_def)
  have u1: "[pubs_cinemas_policy 10 20 []][0 := ([pubs_cinemas_policy 10 20 []] ! 0)
               \<lparr>body := ChangeLeisureProbability ?lp [(''pubs'', ?snap), (''cinemas'', [])]\<rparr>]
            = [pubs_cinemas_policy 10 20 ?snap]"
    by (simp add: pubs_cinemas_policy_def)
  from h1 leisure_policy_error [OF i1 p1 b1 k ab1,
      of "[(''pubs'', ?snap), (''cinemas'', [])]" "pubs_table (1 / 2)"]
  have "apply_change_probabilities_leisure (day 10) [pubs_cinemas_policy 10 20 []] (pubs_table 1)
     = (Some PolicyError,
        [pubs_cinemas_policy 10 20 []][0 := ([pubs_cinemas_policy 10 20 []] ! 0)
               \<lparr>body := ChangeLeisureProbability ?lp [(''pubs'', ?snap), (''cinemas'', [])]\<rparr>],
        pubs_table (1 / 2))"
    by blast
  then have first: "apply_change_probabilities_leisure (day 10) [pubs_cinemas_policy 10 20 []]
       (pubs_table 1)
     = (Some PolicyError, [pubs_cinemas_policy 10 20 ?snap], pubs_table (1 / 2))"
    unfolding u1 .
  have i2: "active_indices is_ChangeLeisureProbability (day 20) [pubs_cinemas_policy 10 20 ?snap]
              = [] @ 0 # []"
    by (simp add: active_indices_def is_active_def pubs_cinemas_policy_def day_def us_per_day_def)
  have p2: "leisure_loop (day 20) [] [pubs_cinemas_policy 10 20 ?snap] (pubs_table (1 / 2))
              = (None, [pubs_cinemas_policy 10 20 ?snap], pubs_table (1 / 2))"
    by simp
  have b2: "body ([pubs_cinemas_policy 10 20 ?snap] ! 0)
              = ChangeLeisureProbability ?lp [(''pubs'', ?snap), (''cinemas'', [])]"
    by (simp add: pubs_cinemas_policy_def)
  have ab2: "map_of (pubs_table (1 / 2)) ''cinemas'' = None" by (simp add: pubs_table_def)
  have h2: "start_time ([pubs_cinemas_policy 10 20 ?snap] ! 0) \<noteq> day 20
      \<and> end_time ([pubs_cinemas_policy 10 20 ?snap] ! 0) = day 20
      \<and> restore_activities [''pubs''] [(''pubs'', ?snap), (''cinemas'', [])] (pubs_table (1 / 2))
          = (None, pubs_table 1)"
    by (simp add: pubs_cinemas_policy_def pubs_table_def day_def us_per_day_def)
  from h2 leisure_policy_error [OF i2 p2 b2 k ab2, of _ "pubs_table 1"]
  have second: "apply_change_probabilities_leisure (day 20)
        [pubs_cinemas_policy 10 20 ?snap] (pubs_table (1 / 2))
     = (Some PolicyError, [pubs_cinemas_policy 10 20 ?snap], pubs_table 1)"
    by blast
  from first second show ?thesis by simp
qed

subsection \<open>Leisure probabilities: the order of activation and restoration\<close>

text \<open>
  C3 at a concrete registry: two leisure policies on \<^verbatim>\<open>"pubs"\<close>, the first running
  from day 5 to day 9, the second from day 1 to day 5, on a table that starts at 1. The
  call for day 1 activates the second policy. In the call for day 5 the applier activates
  the first policy, which comes first in the registry, before it restores the second: the
  first policy's snapshot is the value 1/4 that the second had set, and the table ends at
  the restored 1 and not at the 1/2 of the policy now in force. With the deactivation
  pass first, as the specification has it, the snapshot is 1 and the table ends at 1/2.
  A policy that starts and ends on day 5 is activated on that day and not restored.
\<close>

theorem leisure_activation_before_restoration:
  "apply_change_probabilities_leisure (day 1)
      [pubs_policy 5 9 (1 / 2) [], pubs_policy 1 5 (1 / 4) []] (pubs_table 1)
     = (None,
        [pubs_policy 5 9 (1 / 2) [], pubs_policy 1 5 (1 / 4) [(''men'', [1]), (''women'', [1])]],
        pubs_table (1 / 4))
   \<and> apply_change_probabilities_leisure (day 5)
        [pubs_policy 5 9 (1 / 2) [], pubs_policy 1 5 (1 / 4) [(''men'', [1]), (''women'', [1])]]
        (pubs_table (1 / 4))
     = (None,
        [pubs_policy 5 9 (1 / 2) [(''men'', [1 / 4]), (''women'', [1 / 4])],
         pubs_policy 1 5 (1 / 4) [(''men'', [1]), (''women'', [1])]],
        pubs_table 1)
   \<and> spec_apply_change_probabilities_leisure (day 5)
        [pubs_policy 5 9 (1 / 2) [], pubs_policy 1 5 (1 / 4) [(''men'', [1]), (''women'', [1])]]
        (pubs_table (1 / 4))
     = (None,
        [pubs_policy 5 9 (1 / 2) [(''men'', [1]), (''women'', [1])],
         pubs_policy 1 5 (1 / 4) [(''men'', [1]), (''women'', [1])]],
        pubs_table (1 / 2))
   \<and> apply_change_probabilities_leisure (day 5) [pubs_policy 5 5 (1 / 2) []] (pubs_table 1)
     = (None, [pubs_policy 5 5 (1 / 2) [(''men'', [1]), (''women'', [1])]], pubs_table (1 / 2))
   \<and> apply_change_probabilities_leisure (day 5)
        [pubs_policy 5 9 (1 / 2) [], pubs_policy 1 5 (1 / 4) [(''men'', [1]), (''women'', [1])]]
        (pubs_table (1 / 4))
     \<noteq> spec_apply_change_probabilities_leisure (day 5)
        [pubs_policy 5 9 (1 / 2) [], pubs_policy 1 5 (1 / 4) [(''men'', [1]), (''women'', [1])]]
        (pubs_table (1 / 4))"
  by (simp add: apply_change_probabilities_leisure_def spec_apply_change_probabilities_leisure_def
        active_indices_def is_active_def pubs_policy_def pubs_table_def day_def us_per_day_def)

subsection \<open>The life of a snapshot\<close>

lemma unset_keys_map_of:
  "map_of (unset_keys ks ob) k = (if k \<in> set ks then Some None else map_of ob k)"
  by (induction ks arbitrary: ob) (auto simp: update_conv')

lemma init_leisure_probabilities_original:
  "init_leisure_probabilities parse acts given lp orig = Inr (lp', orig') \<Longrightarrow>
   map_of orig' a = (if a \<in> set acts then Some [] else map_of orig a)"
  by (induction acts arbitrary: lp orig)
     (auto split: option.splits sum.splits if_splits simp: update_conv')

lemma active_indices_bound: "\<forall>i\<in>set (active_indices t date ps). i < length ps"
  by (simp add: active_indices_def)

lemma activate_pass_frame:
  "\<forall>i\<in>set idxs. i < length ps \<Longrightarrow> activate_pass date idxs ps beta = (e, ps', beta') \<Longrightarrow>
   length ps' = length ps
   \<and> (\<forall>j<length ps. start_time (ps' ! j) = start_time (ps ! j)
         \<and> (start_time (ps ! j) \<noteq> date \<longrightarrow> ps' ! j = ps ! j))"
proof (induction idxs arbitrary: ps beta)
  case Nil
  then show ?case by simp
next
  case (Cons i idxs)
  from Cons.prems(1) have i: "i < length ps" and tail: "\<forall>i\<in>set idxs. i < length ps"
    by simp_all
  show ?case
  proof (cases "start_time (ps ! i) = date")
    case False
    with Cons.prems(2) have "activate_pass date idxs ps beta = (e, ps', beta')" by simp
    from Cons.IH [OF tail this] show ?thesis .
  next
    case True
    show ?thesis
    proof (cases "body (ps ! i)")
      case (SocialDistancing bf ob)
      obtain err ob' b1 where a: "activate_betas bf ob beta = (err, ob', b1)"
        by (cases "activate_betas bf ob beta")
      define ps1 where "ps1 = ps[i := (ps ! i)\<lparr>body := SocialDistancing bf ob'\<rparr>]"
      have l1: "length ps1 = length ps" by (simp add: ps1_def)
      have f1: "\<forall>j<length ps. start_time (ps1 ! j) = start_time (ps ! j)
         \<and> (start_time (ps ! j) \<noteq> date \<longrightarrow> ps1 ! j = ps ! j)"
        using True i by (auto simp: ps1_def nth_list_update)
      show ?thesis
      proof (cases err)
        case (Some e1)
        with a True SocialDistancing Cons.prems(2) have "ps' = ps1"
          by (simp add: Let_def ps1_def)
        with l1 f1 show ?thesis by simp
      next
        case None
        with a True SocialDistancing Cons.prems(2)
        have r: "activate_pass date idxs ps1 b1 = (e, ps', beta')"
          by (simp add: Let_def ps1_def)
        from tail l1 have "\<forall>i\<in>set idxs. i < length ps1" by simp
        from Cons.IH [OF this r] l1 f1 show ?thesis by auto
      qed
    qed (use True Cons.prems(2) in auto)
  qed
qed

lemma leisure_loop_frame:
  "\<forall>i\<in>set idxs. i < length ps \<Longrightarrow> leisure_loop date idxs ps L = (e, ps', L') \<Longrightarrow>
   length ps' = length ps
   \<and> (\<forall>j<length ps. start_time (ps' ! j) = start_time (ps ! j)
         \<and> (start_time (ps ! j) \<noteq> date \<longrightarrow> ps' ! j = ps ! j))"
proof (induction idxs arbitrary: ps L)
  case Nil
  then show ?case by simp
next
  case (Cons i idxs)
  from Cons.prems(1) have i: "i < length ps" and tail: "\<forall>i\<in>set idxs. i < length ps"
    by simp_all
  show ?case
  proof (cases "body (ps ! i)")
    case (ChangeLeisureProbability lp orig)
    show ?thesis
    proof (cases "start_time (ps ! i) = date")
      case False
      show ?thesis
      proof (cases "end_time (ps ! i) = date")
        case True
        obtain err L1 where r: "restore_activities (map fst lp) orig L = (err, L1)"
          by (cases "restore_activities (map fst lp) orig L")
        show ?thesis
        proof (cases err)
          case None
          with r True False ChangeLeisureProbability Cons.prems(2)
          have "leisure_loop date idxs ps L1 = (e, ps', L')" by simp
          from Cons.IH [OF tail this] show ?thesis .
        next
          case (Some e1)
          with r True False ChangeLeisureProbability Cons.prems(2) have "ps' = ps" by simp
          then show ?thesis by simp
        qed
      next
        case neither: False
        with False ChangeLeisureProbability Cons.prems(2)
        have "leisure_loop date idxs ps L = (e, ps', L')" by simp
        from Cons.IH [OF tail this] show ?thesis .
      qed
    next
      case True
      obtain err orig' L1 where a: "activate_activities (map fst lp) lp orig L = (err, orig', L1)"
        by (cases "activate_activities (map fst lp) lp orig L")
      define ps1 where "ps1 = ps[i := (ps ! i)\<lparr>body := ChangeLeisureProbability lp orig'\<rparr>]"
      have l1: "length ps1 = length ps" by (simp add: ps1_def)
      have f1: "\<forall>j<length ps. start_time (ps1 ! j) = start_time (ps ! j)
         \<and> (start_time (ps ! j) \<noteq> date \<longrightarrow> ps1 ! j = ps ! j)"
        using True i by (auto simp: ps1_def nth_list_update)
      show ?thesis
      proof (cases err)
        case (Some e1)
        with a True ChangeLeisureProbability Cons.prems(2) have "ps' = ps1"
          by (simp add: Let_def ps1_def)
        with l1 f1 show ?thesis by simp
      next
        case None
        with a True ChangeLeisureProbability Cons.prems(2)
        have r: "leisure_loop date idxs ps1 L1 = (e, ps', L')"
          by (simp add: Let_def ps1_def)
        from tail l1 have "\<forall>i\<in>set idxs. i < length ps1" by simp
        from Cons.IH [OF this r] l1 f1 show ?thesis by auto
      qed
    qed
  qed (use Cons.prems(2) in auto)
qed

lemma social_distancing_applier_frame:
  assumes "apply_social_distancing_policy date ps beta = (e, ps', beta')"
  shows "length ps' = length ps
       \<and> (\<forall>j<length ps. start_time (ps ! j) \<noteq> date \<longrightarrow> ps' ! j = ps ! j)"
proof (cases "deactivate_pass date ps (active_indices is_SocialDistancing date ps) beta")
  case (Pair err b1)
  show ?thesis
  proof (cases err)
    case (Some e1)
    with Pair assms have "ps' = ps" by (simp add: apply_social_distancing_policy_def)
    then show ?thesis by simp
  next
    case None
    with Pair assms
    have "activate_pass date (active_indices is_SocialDistancing date ps) ps b1 = (e, ps', beta')"
      by (simp add: apply_social_distancing_policy_def)
    from activate_pass_frame [OF active_indices_bound this] show ?thesis by simp
  qed
qed

lemma leisure_applier_frame:
  assumes "apply_change_probabilities_leisure date ps L = (e, ps', L')"
  shows "length ps' = length ps
       \<and> (\<forall>j<length ps. start_time (ps ! j) \<noteq> date \<longrightarrow> ps' ! j = ps ! j)"
  using leisure_loop_frame
    [OF active_indices_bound assms [unfolded apply_change_probabilities_leisure_def]]
  by simp

lemma social_distancing_init_unset:
  assumes "SocialDistancing_init strptime start_arg end_arg (Some bf) = Inr p"
  shows "\<exists>ob. body p = SocialDistancing bf ob
           \<and> (\<forall>k. map_of ob k = (if k \<in> fst ` set bf then Some None else None))"
  using assms
  by (auto simp: SocialDistancing_init_def unset_keys_map_of split: sum.splits)

lemma change_leisure_probability_init_unset:
  assumes "ChangeLeisureProbability_init strptime parse start_arg end_arg given = Inr q"
  shows "\<exists>lp orig. body q = ChangeLeisureProbability lp orig
           \<and> (\<forall>a. map_of orig a = (if a \<in> fst ` set given then Some [] else None))"
proof -
  from assms obtain p lp orig where
    i: "init_leisure_probabilities parse (map fst given) given [] [] = Inr (lp, orig)"
    and q: "q = p\<lparr>body := ChangeLeisureProbability lp orig\<rparr>"
    by (auto simp: ChangeLeisureProbability_init_def split: sum.splits)
  from init_leisure_probabilities_original [OF i]
  have "\<forall>a. map_of orig a = (if a \<in> fst ` set given then Some [] else None)" by simp
  with q show ?thesis by simp
qed

text \<open>
  C2, as amended: the snapshot of a stateful policy is unset when the policy is
  constructed (\<open>None\<close> under every key of \<open>beta_factors\<close>, the empty dictionary under every
  activity), and a call of an applier for a date that is not the policy's \<open>start_time\<close>
  leaves the policy, and so its snapshot, as it was: unset before the first activation,
  and kept, not cleared, when the policy is restored on its \<open>end_time\<close> and on every later
  date. An activation that completes overwrites the snapshot of every configured key with
  the value the collaborator holds at that moment, whatever the snapshot held before.
\<close>

theorem snapshot_lifecycle:
  "(SocialDistancing_init strptime start_arg end_arg (Some bf) = Inr p \<longrightarrow>
      (\<exists>ob. body p = SocialDistancing bf ob
          \<and> (\<forall>k. map_of ob k = (if k \<in> fst ` set bf then Some None else None))))
   \<and> (ChangeLeisureProbability_init strptime parse start_arg end_arg given = Inr q \<longrightarrow>
        (\<exists>lp orig. body q = ChangeLeisureProbability lp orig
            \<and> (\<forall>a. map_of orig a = (if a \<in> fst ` set given then Some [] else None))))
   \<and> (apply_social_distancing_policy date ps beta = (e1, ps1, beta1) \<longrightarrow>
        length ps1 = length ps
        \<and> (\<forall>j<length ps. start_time (ps ! j) \<noteq> date \<longrightarrow> ps1 ! j = ps ! j))
   \<and> (apply_change_probabilities_leisure date ps L = (e2, ps2, L2) \<longrightarrow>
        length ps2 = length ps
        \<and> (\<forall>j<length ps. start_time (ps ! j) \<noteq> date \<longrightarrow> ps2 ! j = ps ! j))
   \<and> (distinct (map fst bf) \<and> activate_betas bf ob0 beta = (None, ob', beta') \<longrightarrow>
        (\<forall>k\<in>fst ` set bf. map_of ob' k = map_of beta k))
   \<and> (distinct (map fst lp0) \<and> activate_activities (map fst lp0) lp0 orig0 L = (None, orig', L')
        \<longrightarrow> (\<forall>a\<in>fst ` set lp0. configured orig' a = map_of L a))"
proof (intro conjI impI)
  assume "SocialDistancing_init strptime start_arg end_arg (Some bf) = Inr p"
  then show "\<exists>ob. body p = SocialDistancing bf ob
          \<and> (\<forall>k. map_of ob k = (if k \<in> fst ` set bf then Some None else None))"
    by (rule social_distancing_init_unset)
next
  assume "ChangeLeisureProbability_init strptime parse start_arg end_arg given = Inr q"
  then show "\<exists>lp orig. body q = ChangeLeisureProbability lp orig
            \<and> (\<forall>a. map_of orig a = (if a \<in> fst ` set given then Some [] else None))"
    by (rule change_leisure_probability_init_unset)
next
  assume a: "apply_social_distancing_policy date ps beta = (e1, ps1, beta1)"
  from social_distancing_applier_frame [OF a]
  show "length ps1 = length ps"
    and "\<forall>j<length ps. start_time (ps ! j) \<noteq> date \<longrightarrow> ps1 ! j = ps ! j"
    by simp_all
next
  assume a: "apply_change_probabilities_leisure date ps L = (e2, ps2, L2)"
  from leisure_applier_frame [OF a]
  show "length ps2 = length ps"
    and "\<forall>j<length ps. start_time (ps ! j) \<noteq> date \<longrightarrow> ps2 ! j = ps ! j"
    by simp_all
next
  assume "distinct (map fst bf) \<and> activate_betas bf ob0 beta = (None, ob', beta')"
  then show "\<forall>k\<in>fst ` set bf. map_of ob' k = map_of beta k"
    using activate_betas_snapshot by blast
next
  assume "distinct (map fst lp0)
    \<and> activate_activities (map fst lp0) lp0 orig0 L = (None, orig', L')"
  then have "\<forall>a\<in>set (map fst lp0). configured orig' a = map_of L a"
    using activate_activities_values by blast
  then show "\<forall>a\<in>fst ` set lp0. configured orig' a = map_of L a" by simp
qed

theorem snapshot_lifecycle_witness:
  "SocialDistancing_init strptime_two (PyStr ''1970-01-11'') (PyDate 20)
       (Some [(''household'', 1 / 2)]) = Inr household_policy
   \<and> (\<exists>ob. body household_policy = SocialDistancing [(''household'', 1 / 2)] ob
          \<and> map_of ob ''household'' = Some None)
   \<and> ChangeLeisureProbability_init strptime_two (\<lambda>d. Inr (map snd d)) (PyDate 10) (PyDate 20)
        [(''pubs'', [(''men'', [(''0-99'', 1 / 2)]), (''women'', [(''0-99'', 1 / 2)])])]
       = Inr (pubs_policy 10 20 (1 / 2) [])
   \<and> (\<exists>lp orig. body (pubs_policy 10 20 (1 / 2) []) = ChangeLeisureProbability lp orig
          \<and> map_of orig ''pubs'' = Some [])
   \<and> apply_change_probabilities_leisure (day 20)
        [pubs_policy 10 20 (1 / 2) [(''men'', [1]), (''women'', [1])]] (pubs_table (1 / 2))
       = (None, [pubs_policy 10 20 (1 / 2) [(''men'', [1]), (''women'', [1])]], pubs_table 1)
   \<and> [pubs_policy 10 20 (1 / 2) [(''men'', [1]), (''women'', [1])]] ! 0
       = pubs_policy 10 20 (1 / 2) [(''men'', [1]), (''women'', [1])]
   \<and> apply_social_distancing_policy (day 9) [household_policy] household_beta
       = (None, [household_policy], household_beta)
   \<and> activate_betas [(''household'', 1 / 2)] [(''household'', Some 7)] household_beta
       = (None, [(''household'', Some 2)], [(''household'', Some 1)])
   \<and> map_of [(''household'', Some (2 :: rat))] ''household'' = map_of household_beta ''household''
   \<and> activate_activities [''pubs''] [(''pubs'', [(''men'', [1 / 2]), (''women'', [1 / 2])])]
        [(''pubs'', [(''men'', [7]), (''women'', [7])])] (pubs_table 1)
       = (None, [(''pubs'', [(''men'', [1]), (''women'', [1])])], pubs_table (1 / 2))
   \<and> configured [(''pubs'', [(''men'', [1]), (''women'', [1])])] ''pubs''
       = map_of (pubs_table 1) ''pubs''"
proof -
  let ?snap = "[(''men'', [1 :: rat]), (''women'', [1])]"
  let ?given = "[(''pubs'', [(''men'', [(''0-99'', 1 / 2 :: rat)]),
                             (''women'', [(''0-99'', 1 / 2)])])]"
  let ?lp = "[(''pubs'', [(''men'', [1 / 2 :: rat]), (''women'', [1 / 2])])]"
  have i1: "SocialDistancing_init strptime_two (PyStr ''1970-01-11'') (PyDate 20)
       (Some [(''household'', 1 / 2)]) = Inr household_policy"
    by (simp add: SocialDistancing_init_def Policy_init_def read_date_def strptime_two_def
          household_policy_def)
  have i2: "ChangeLeisureProbability_init strptime_two (\<lambda>d. Inr (map snd d))
        (PyStr ''1970-01-11'') (PyDate 20) ?given = Inr (pubs_policy 10 20 (1 / 2) [])"
    by (simp add: ChangeLeisureProbability_init_def Policy_init_def read_date_def
          strptime_two_def pubs_policy_def)
  have i2': "ChangeLeisureProbability_init strptime_two (\<lambda>d. Inr (map snd d))
        (PyDate 10) (PyDate 20) ?given = Inr (pubs_policy 10 20 (1 / 2) [])"
    by (simp add: ChangeLeisureProbability_init_def Policy_init_def read_date_def
          pubs_policy_def)
  have f1: "apply_social_distancing_policy (day 9) [household_policy] household_beta
       = (None, [household_policy], household_beta)"
    by (rule household_day9)
  have f2: "apply_change_probabilities_leisure (day 9) [household_policy] (pubs_table 1)
       = (None, [household_policy], pubs_table 1)"
    by (simp add: apply_change_probabilities_leisure_def active_indices_def
          household_policy_def)
  have a1: "distinct (map fst [(''household'', 1 / 2 :: rat)])
      \<and> activate_betas [(''household'', 1 / 2)] [(''household'', Some 7)] household_beta
          = (None, [(''household'', Some 2)], [(''household'', Some 1)])"
    by (simp add: household_beta_def)
  have a2: "distinct (map fst ?lp)
      \<and> activate_activities (map fst ?lp) ?lp [(''pubs'', [(''men'', [7]), (''women'', [7])])]
          (pubs_table 1)
          = (None, [(''pubs'', ?snap)], pubs_table (1 / 2))"
    by (simp add: pubs_table_def)
  from i1 i2 f1 f2 a1 a2
    snapshot_lifecycle
      [of strptime_two "PyStr ''1970-01-11''" "PyDate 20" "[(''household'', 1 / 2)]"
          household_policy "\<lambda>d. Inr (map snd d)" ?given "pubs_policy 10 20 (1 / 2) []"
          "day 9" "[household_policy]" household_beta None "[household_policy]" household_beta
          "pubs_table 1" None "[household_policy]" "pubs_table 1"
          "[(''household'', Some 7)]" "[(''household'', Some 2)]" "[(''household'', Some 1)]"
          ?lp "[(''pubs'', [(''men'', [7]), (''women'', [7])])]" "[(''pubs'', ?snap)]"
          "pubs_table (1 / 2)"]
  have c: "(\<exists>ob. body household_policy = SocialDistancing [(''household'', 1 / 2)] ob
            \<and> (\<forall>k. map_of ob k
                  = (if k \<in> fst ` set [(''household'', 1 / 2 :: rat)] then Some None else None)))
      \<and> (\<exists>lp orig. body (pubs_policy 10 20 (1 / 2) []) = ChangeLeisureProbability lp orig
            \<and> (\<forall>a. map_of orig a = (if a \<in> fst ` set ?given then Some [] else None)))
      \<and> (\<forall>k\<in>fst ` set [(''household'', 1 / 2 :: rat)].
            map_of [(''household'', Some (2 :: rat))] k = map_of household_beta k)
      \<and> (\<forall>a\<in>fst ` set ?lp. configured [(''pubs'', ?snap)] a = map_of (pubs_table 1) a)"
    by blast
  have r: "apply_change_probabilities_leisure (day 20)
        [pubs_policy 10 20 (1 / 2) ?snap] (pubs_table (1 / 2))
       = (None, [pubs_policy 10 20 (1 / 2) ?snap], pubs_table 1)"
    by (simp add: apply_change_probabilities_leisure_def active_indices_def is_active_def
          pubs_policy_def pubs_table_def day_def us_per_day_def)
  from c have c1: "\<exists>ob. body household_policy = SocialDistancing [(''household'', 1 / 2)] ob
          \<and> map_of ob ''household'' = Some None"
    by auto
  from c have c2: "\<exists>lp orig. body (pubs_policy 10 20 (1 / 2) []) = ChangeLeisureProbability lp orig
          \<and> map_of orig ''pubs'' = Some []"
    by auto
  from c have c3: "map_of [(''household'', Some (2 :: rat))] ''household''
                     = map_of household_beta ''household''"
    by simp
  from c have c4: "configured [(''pubs'', ?snap)] ''pubs'' = map_of (pubs_table 1) ''pubs''"
    by simp
  from a1 have a1': "activate_betas [(''household'', 1 / 2)] [(''household'', Some 7)]
      household_beta = (None, [(''household'', Some 2)], [(''household'', Some 1)])"
    by simp
  from a2 have a2': "activate_activities [''pubs''] ?lp
      [(''pubs'', [(''men'', [7]), (''women'', [7])])] (pubs_table 1)
       = (None, [(''pubs'', ?snap)], pubs_table (1 / 2))"
    by simp
  from i1 c1 i2' c2 r f1 a1' c3 a2' c4 show ?thesis by simp
qed

text \<open>
  C2, as stated, fails: the leisure policy of days 10 to 20 takes its snapshot on day 10
  and restores the table on day 20; the snapshot is still there after the restoration, and
  day 21 is outside the window of the policy.
\<close>

theorem snapshot_kept_counterexample:
  "apply_change_probabilities_leisure (day 10) [pubs_policy 10 20 (1 / 2) []] (pubs_table 1)
     = (None, [pubs_policy 10 20 (1 / 2) [(''men'', [1]), (''women'', [1])]],
        pubs_table (1 / 2))
   \<and> apply_change_probabilities_leisure (day 20)
        [pubs_policy 10 20 (1 / 2) [(''men'', [1]), (''women'', [1])]] (pubs_table (1 / 2))
     = (None, [pubs_policy 10 20 (1 / 2) [(''men'', [1]), (''women'', [1])]], pubs_table 1)
   \<and> apply_change_probabilities_leisure (day 21)
        [pubs_policy 10 20 (1 / 2) [(''men'', [1]), (''women'', [1])]] (pubs_table 1)
     = (None, [pubs_policy 10 20 (1 / 2) [(''men'', [1]), (''women'', [1])]], pubs_table 1)
   \<and> \<not> is_active (pubs_policy 10 20 (1 / 2) [(''men'', [1]), (''women'', [1])]) (day 21)
   \<and> body (pubs_policy 10 20 (1 / 2) [(''men'', [1]), (''women'', [1])])
       = ChangeLeisureProbability [(''pubs'', [(''men'', [1 / 2]), (''women'', [1 / 2])])]
           [(''pubs'', [(''men'', [1]), (''women'', [1])])]"
  by (simp add: apply_change_probabilities_leisure_def active_indices_def is_active_def
        pubs_policy_def pubs_table_def day_def us_per_day_def)

end
